theory Spec2Isabelle
  imports Complex_Main "HOL-Library.Word" "HOL-Library.Signed_Division"
begin

unbundle bit_operations_syntax

section \<open>Machine integers of the C++ source\<close>

text \<open>
  A C \<open>int\<close> is a 32-bit two's complement word, read with \<open>sint\<close>.  C division truncates
  towards zero; on the integers this is \<open>sdiv\<close>.  Dividing \<open>INT_MIN\<close> by \<open>-1\<close> is the only
  quotient that leaves the type, and no divisor of the source is negative.
\<close>

type_synonym cint = "32 word"

definition c_div :: "cint \<Rightarrow> cint \<Rightarrow> cint" where
  "c_div a b = word_of_int (sint a sdiv sint b)"

text \<open>
  Signed overflow is undefined behaviour in C++.  The compiled code computes in two's
  complement, and so does the model: \<open>+\<close>, \<open>-\<close> and \<open>*\<close> on \<open>int\<close> wrap around.
  \<open>int_ok k\<close> says that the mathematical result \<open>k\<close> fits an \<open>int\<close>, so that nothing wraps.
\<close>

definition int_ok :: "int \<Rightarrow> bool" where
  "int_ok k \<longleftrightarrow> - (2 ^ 31) \<le> k \<and> k < 2 ^ 31"

section \<open>mrf\_insert.cpp: the overview patch propagator\<close>

text \<open>
  The four locals \<open>BlockXOut\<close>, \<open>BlockYOut\<close>, \<open>WidthOut\<close>, \<open>HeightOut\<close> of \<open>state::patch\<close>.
\<close>

record patch_region =
  BlockXOut :: cint
  BlockYOut :: cint
  WidthOut :: cint
  HeightOut :: cint

text \<open>
  The tail of the loop body: the width and height are computed from the old block
  offsets, which are halved afterwards.
\<close>

definition level_step :: "patch_region \<Rightarrow> patch_region" where
  "level_step r =
     (let w = c_div (WidthOut r) 2 + (WidthOut r AND 1) + (BlockXOut r AND 1);
          h = c_div (HeightOut r) 2 + (HeightOut r AND 1) + (BlockYOut r AND 1)
      in \<lparr> BlockXOut = c_div (BlockXOut r) 2, BlockYOut = c_div (BlockYOut r) 2,
           WidthOut = w, HeightOut = h \<rparr>)"

text \<open>
  The loop \<open>for (int sl = 0; sl < overview_count; sl++)\<close> over the source levels \<open>sls\<close>.
  The result is the list of the calls to \<open>PatchOverview\<close> (region and source level), in
  order, and the region after the last step.
\<close>

fun overview_loop :: "int \<Rightarrow> int \<Rightarrow> patch_region \<Rightarrow> nat list \<Rightarrow> (patch_region \<times> nat) list \<times> patch_region" where
  "overview_loop start_level stop_level r [] = ([], r)"
| "overview_loop start_level stop_level r (sl # sls) =
     (let calls = (if int sl \<ge> start_level \<and> int sl < stop_level then [(r, sl)] else []);
          rest = overview_loop start_level stop_level (level_step r) sls
      in (calls @ fst rest, snd rest))"

text \<open>
  The part of \<open>state::patch\<close> after the base level: \<open>stop_level = -1\<close> stands for all
  levels, and \<open>start_level\<close> is decremented to a source level.
\<close>

definition patch_overviews :: "int \<Rightarrow> int \<Rightarrow> nat \<Rightarrow> patch_region \<Rightarrow> (patch_region \<times> nat) list" where
  "patch_overviews start_level stop_level overview_count r =
     (let stop = (if stop_level = -1 then int overview_count else stop_level)
      in fst (overview_loop (start_level - 1) stop r [0..<overview_count]))"

text \<open>
  The rule in the words of the specification, on mathematical integers: \<open>(x, y, w, h)\<close>
  for block X, block Y, width and height; the division truncates.
\<close>

definition spec_level_step :: "int \<times> int \<times> int \<times> int \<Rightarrow> int \<times> int \<times> int \<times> int" where
  "spec_level_step r =
     (case r of (x, y, w, h) \<Rightarrow>
        (x sdiv 2, y sdiv 2, w sdiv 2 + w mod 2 + x mod 2, h sdiv 2 + h mod 2 + y mod 2))"

definition region_ints :: "patch_region \<Rightarrow> int \<times> int \<times> int \<times> int" where
  "region_ints r = (sint (BlockXOut r), sint (BlockYOut r), sint (WidthOut r), sint (HeightOut r))"

section \<open>mrf\_insert.cpp: ClippedRasterIO\<close>

datatype GDALRWFlag = GF_Read | GF_Write

text \<open>
  What a call does: it refuses a write, or it ends in \<open>band->RasterIO(GF_Read, nXOff,
  nYOff, nXSize, nYSize, pData, ...)\<close>.  The last field is the displacement of \<open>pData\<close> in
  bytes.
\<close>

datatype clipped_outcome =
    NotImplemented
  | RasterIO cint cint cint cint int

text \<open>
  The test \<open>nXOff >= 0 && nXOff + nXSize <= band->GetXSize() && nYOff >= 0 && nYOff +
  nYSize <= band->GetYSize()\<close>.
\<close>

definition no_clip_needed :: "cint \<Rightarrow> cint \<Rightarrow> cint \<Rightarrow> cint \<Rightarrow> cint \<Rightarrow> cint \<Rightarrow> bool" where
  "no_clip_needed XSize YSize nXOff nYOff nXSize nYSize \<longleftrightarrow>
     0 \<le> sint nXOff \<and> sint (nXOff + nXSize) \<le> sint XSize \<and>
     0 \<le> sint nYOff \<and> sint (nYOff + nYSize) \<le> sint YSize"

text \<open>The condition \<open>nOff < 0 || nOff + nSize > band size\<close> of either axis.\<close>

definition clip_test :: "cint \<Rightarrow> cint \<Rightarrow> cint \<Rightarrow> bool" where
  "clip_test Size nOff nSize \<longleftrightarrow> sint nOff < 0 \<or> sint (nOff + nSize) > sint Size"

text \<open>The statement \<open>if (nOff + nSize > band size) nSize = band size - nOff\<close>.\<close>

definition clip_end :: "cint \<Rightarrow> cint \<Rightarrow> cint \<Rightarrow> cint" where
  "clip_end Size nOff nSize = (if sint (nOff + nSize) > sint Size then Size - nOff else nSize)"

text \<open>
  The X block: offset, size and buffer displacement after it.  A negative offset moves
  \<open>pData\<close> by \<open>nXOff * nPixelSpace\<close>, an \<open>int\<close> product.
\<close>

definition clip_x :: "cint \<Rightarrow> cint \<Rightarrow> cint \<Rightarrow> cint \<Rightarrow> int \<Rightarrow> cint \<times> cint \<times> int" where
  "clip_x XSize nXOff nXSize nPixelSpace disp =
     (if clip_test XSize nXOff nXSize then
        (if sint nXOff < 0 then
           (0, clip_end XSize 0 (nXSize + nXOff), disp + sint (nXOff * nPixelSpace))
         else
           (nXOff, clip_end XSize nXOff nXSize, disp))
      else (nXOff, nXSize, disp))"

text \<open>
  The Y block.  A negative offset moves \<open>pData\<close> by \<open>nLineSpace\<close>, once.
\<close>

definition clip_y :: "cint \<Rightarrow> cint \<Rightarrow> cint \<Rightarrow> cint \<Rightarrow> int \<Rightarrow> cint \<times> cint \<times> int" where
  "clip_y YSize nYOff nYSize nLineSpace disp =
     (if clip_test YSize nYOff nYSize then
        (if sint nYOff < 0 then
           (0, clip_end YSize 0 (nYSize + nYOff), disp + sint nLineSpace)
         else
           (nYOff, clip_end YSize nYOff nYSize, disp))
      else (nYOff, nYSize, disp))"

text \<open>
  \<open>ClippedRasterIO\<close>; \<open>XSize\<close> and \<open>YSize\<close> are \<open>band->GetXSize()\<close> and
  \<open>band->GetYSize()\<close>.  The buffer sizes and the buffer type are handed on unchanged and
  are left out.
\<close>

definition ClippedRasterIO ::
  "cint \<Rightarrow> cint \<Rightarrow> GDALRWFlag \<Rightarrow> cint \<Rightarrow> cint \<Rightarrow> cint \<Rightarrow> cint \<Rightarrow> cint \<Rightarrow> cint \<Rightarrow> clipped_outcome" where
  "ClippedRasterIO XSize YSize eRWFlag nXOff nYOff nXSize nYSize nPixelSpace nLineSpace =
     (if eRWFlag \<noteq> GF_Read then NotImplemented
      else if no_clip_needed XSize YSize nXOff nYOff nXSize nYSize
        then RasterIO nXOff nYOff nXSize nYSize 0
      else
        (case clip_x XSize nXOff nXSize nPixelSpace 0 of
           (nXOff', nXSize', disp) \<Rightarrow>
             (case clip_y YSize nYOff nYSize nLineSpace disp of
                (nYOff', nYSize', disp') \<Rightarrow> RasterIO nXOff' nYOff' nXSize' nYSize' disp')))"

section \<open>mrf\_band.cpp: buffers\<close>

text \<open>
  Memory is bytes.  A pointer into an allocation is modelled by the bytes from the
  pointer to the end of the allocation; \<open>size_t\<close> and \<open>GUIntBig\<close> are 64-bit words, whose
  arithmetic wraps.
\<close>

type_synonym byte = "8 word"
type_synonym size_t = "64 word"
type_synonym GUIntBig = "64 word"

datatype CPLErr = CE_None | CE_Debug | CE_Warning | CE_Failure | CE_Fatal

text \<open>
  \<open>store buf off bs\<close> writes the bytes \<open>bs\<close> at offset \<open>off\<close>, as \<open>memcpy\<close> and the element
  assignments of the source do.  A write past the end of the modelled memory is undefined
  behaviour in the source; here the byte is dropped.  \<open>load\<close> reads \<open>n\<close> bytes at an
  offset.
\<close>

primrec store :: "byte list \<Rightarrow> nat \<Rightarrow> byte list \<Rightarrow> byte list" where
  "store buf off [] = buf"
| "store buf off (b # bs) = store (buf[off := b]) (Suc off) bs"

definition load :: "byte list \<Rightarrow> nat \<Rightarrow> nat \<Rightarrow> byte list" where
  "load buf off n = take n (drop off buf)"

text \<open>The struct \<open>buf_mgr\<close>: \<open>buffer\<close> and \<open>size\<close>.\<close>

record buf_mgr =
  buffer :: "byte list"
  size_b :: size_t

text \<open>
  \<open>cpy_stride_in<T>\<close> and \<open>cpy_stride_out<T>\<close>: \<open>w\<close> is \<open>sizeof(T)\<close>, a \<open>T *\<close> is a memory
  and an element index, \<open>c\<close> counts down.
\<close>

fun cpy_stride_in :: "nat \<Rightarrow> byte list \<Rightarrow> nat \<Rightarrow> byte list \<Rightarrow> nat \<Rightarrow> nat \<Rightarrow> nat \<Rightarrow> byte list" where
  "cpy_stride_in w dst d src s 0 stride = dst"
| "cpy_stride_in w dst d src s (Suc c) stride =
     cpy_stride_in w (store dst (d * w) (load src (s * w) w)) (Suc d) src (s + stride) c stride"

fun cpy_stride_out :: "nat \<Rightarrow> byte list \<Rightarrow> nat \<Rightarrow> byte list \<Rightarrow> nat \<Rightarrow> nat \<Rightarrow> nat \<Rightarrow> byte list" where
  "cpy_stride_out w dst d src s 0 stride = dst"
| "cpy_stride_out w dst d src s (Suc c) stride =
     cpy_stride_out w (store dst (d * w) (load src (s * w) w)) (d + stride) src (Suc s) c stride"

text \<open>
  \<open>is_zero\<close> and \<open>is_empty\<close>; the result 0 is \<open>False\<close>.  Reading past the end of the
  modelled buffer is undefined in the source; the model answers \<open>False\<close> there.
\<close>

fun is_zero :: "byte list \<Rightarrow> nat \<Rightarrow> bool" where
  "is_zero b 0 = True"
| "is_zero [] (Suc count) = False"
| "is_zero (x # b) (Suc count) = (if x \<noteq> 0 then False else is_zero b count)"

fun is_empty_buf :: "byte list \<Rightarrow> nat \<Rightarrow> byte \<Rightarrow> bool" where
  "is_empty_buf b 0 val = True"
| "is_empty_buf [] (Suc count) val = False"
| "is_empty_buf (x # b) (Suc count) val = (if x \<noteq> val then False else is_empty_buf b count val)"

section \<open>mrf\_band.cpp: data types and byte order\<close>

text \<open>GDAL's pixel types and their sizes in bits.\<close>

datatype GDALDataType =
    GDT_Unknown | GDT_Byte | GDT_UInt16 | GDT_Int16 | GDT_UInt32 | GDT_Int32
  | GDT_Float32 | GDT_Float64 | GDT_CInt16 | GDT_CInt32 | GDT_CFloat32 | GDT_CFloat64

fun GDALGetDataTypeSize :: "GDALDataType \<Rightarrow> nat" where
  "GDALGetDataTypeSize GDT_Unknown = 0"
| "GDALGetDataTypeSize GDT_Byte = 8"
| "GDALGetDataTypeSize GDT_UInt16 = 16"
| "GDALGetDataTypeSize GDT_Int16 = 16"
| "GDALGetDataTypeSize GDT_UInt32 = 32"
| "GDALGetDataTypeSize GDT_Int32 = 32"
| "GDALGetDataTypeSize GDT_Float32 = 32"
| "GDALGetDataTypeSize GDT_Float64 = 64"
| "GDALGetDataTypeSize GDT_CInt16 = 32"
| "GDALGetDataTypeSize GDT_CInt32 = 64"
| "GDALGetDataTypeSize GDT_CFloat32 = 64"
| "GDALGetDataTypeSize GDT_CFloat64 = 128"

datatype GDALAccess = GA_ReadOnly | GA_Update

text \<open>
  \<open>ILSize\<close> (fields \<open>x y z c l\<close>), \<open>ILIdx\<close> (fields \<open>offset size\<close>) and the fields of
  \<open>ILImage\<close> that the band code reads.  A \<open>double\<close> is carried as a real number: the model
  does no floating-point arithmetic.  The compression \<open>comp\<close> is the number of the
  enumeration value.
\<close>

record ILSize =
  sz_x :: int
  sz_y :: int
  sz_z :: int
  sz_c :: int
  sz_l :: int

record ILIdx =
  offset :: GUIntBig
  size_i :: GUIntBig

record ILImage =
  pagesize :: ILSize
  pageSizeBytes :: size_t
  dt :: GDALDataType
  comp_c :: nat
  nbo :: bool
  NoDataValue :: real
  hasNoData :: bool

text \<open>
  Modelled from the spec: the macros \<open>swab16\<close>, \<open>swab32\<close> and \<open>swab64\<close> are not among the
  source files.  The specification swaps 16/32/64-bit words: the bytes of a word are
  reversed.
\<close>

definition swab :: "byte list \<Rightarrow> byte list" where
  "swab word = rev word"

text \<open>
  The loops of \<open>swab_buff\<close>: \<open>i\<close> words of \<open>w\<close> bytes are swapped, from the start of the
  buffer on.
\<close>

fun swab_words :: "nat \<Rightarrow> byte list \<Rightarrow> nat \<Rightarrow> byte list" where
  "swab_words w b 0 = b"
| "swab_words w b (Suc i) = swab (take w b) @ swab_words w (drop w b) i"

definition swab_buff :: "buf_mgr \<Rightarrow> ILImage \<Rightarrow> buf_mgr" where
  "swab_buff src img =
     (let n = GDALGetDataTypeSize (dt img) in
      if n = 16 then src\<lparr>buffer := swab_words 2 (buffer src) (unat (size_b src) div 2)\<rparr>
      else if n = 32 then src\<lparr>buffer := swab_words 4 (buffer src) (unat (size_b src) div 4)\<rparr>
      else if n = 64 then src\<lparr>buffer := swab_words 8 (buffer src) (unat (size_b src) div 8)\<rparr>
      else src)"

section \<open>mrf\_band.cpp: what the band code calls and does not define\<close>

text \<open>
  The functions below are called by the band code and defined elsewhere (codecs, zlib
  wrappers, the allocator, GDAL's block cache).  They are parameters of the model:
  \<^item> \<open>ZPack src cap flags\<close> and \<open>ZUnPack src cap flags\<close>: success, and the bytes written to
    a destination of \<open>cap\<close> bytes; on success \<open>dst.size\<close> becomes their number;
  \<^item> \<open>CPLMalloc n\<close>: \<open>None\<close> for a null pointer, else the contents of the fresh block;
  \<^item> \<open>Compress src cap\<close>: the bytes the codec writes; \<open>Decompress src cap\<close>: the error code
    and the bytes written;
  \<^item> \<open>is_Endianess_Dependent dt comp\<close> and the constant \<open>NET_ORDER\<close>;
  \<^item> \<open>IdxOffset req img\<close>;
  \<^item> \<open>pixel_of_double dt v\<close>: the bytes of the value \<open>T(v)\<close> for the C type \<open>T\<close> of \<open>dt\<close>;
  \<^item> \<open>PamNoDataValue\<close>: the result and success flag of \<open>GDALPamRasterBand::GetNoDataValue\<close>;
  \<^item> \<open>TryGetLockedBlockRef xblk yblk iBand\<close>: the data of another band's block if it is
    in the block cache; \<open>GetLockedBlockRef xblk yblk iBand\<close>: the data of its block.
  No function writes more than \<open>cap\<close> bytes: the model cuts what they return.
\<close>

record env =
  ZPack :: "byte list \<Rightarrow> nat \<Rightarrow> int \<Rightarrow> bool \<times> byte list"
  ZUnPack :: "byte list \<Rightarrow> nat \<Rightarrow> int \<Rightarrow> bool \<times> byte list"
  CPLMalloc :: "nat \<Rightarrow> byte list option"
  Compress :: "byte list \<Rightarrow> nat \<Rightarrow> byte list"
  Decompress :: "byte list \<Rightarrow> nat \<Rightarrow> CPLErr \<times> byte list"
  is_Endianess_Dependent :: "GDALDataType \<Rightarrow> nat \<Rightarrow> bool"
  NET_ORDER :: bool
  IdxOffset :: "ILSize \<Rightarrow> ILImage \<Rightarrow> GUIntBig"
  pixel_of_double :: "GDALDataType \<Rightarrow> real \<Rightarrow> byte list"
  PamNoDataValue :: "real \<times> bool"
  TryGetLockedBlockRef :: "int \<Rightarrow> int \<Rightarrow> nat \<Rightarrow> byte list option"
  GetLockedBlockRef :: "int \<Rightarrow> int \<Rightarrow> nat \<Rightarrow> byte list"

text \<open>
  The conversion of a \<open>double\<close> to an integer type truncates towards zero.  A value that
  does not fit the type is undefined in C++; for a \<open>char\<close> the model keeps the low eight
  bits, so that 255 is the byte \<open>0xFF\<close>.
\<close>

definition double_to_int :: "real \<Rightarrow> int" where
  "double_to_int v = (if 0 \<le> v then \<lfloor>v\<rfloor> else \<lceil>v\<rceil>)"

definition double_to_char :: "real \<Rightarrow> byte" where
  "double_to_char v = word_of_int (double_to_int v)"

section \<open>mrf\_band.cpp: DeflateBlock\<close>

text \<open>
  \<open>DeflateBlock(src, extrasize, flags)\<close>.  The result is the returned pointer as an offset
  from \<open>src.buffer\<close> (\<open>None\<close> for null), \<open>src\<close> after the call, and the sizes asked of
  \<open>CPLMalloc\<close>, in order.  The temporary buffer is freed on every path that allocated it.
\<close>

record deflate_result =
  ret_ptr :: "nat option"
  src_after :: buf_mgr
  mallocs :: "nat list"

text \<open>The input byte range: the first \<open>src.size\<close> bytes at \<open>src.buffer\<close>.\<close>

definition deflate_input :: "buf_mgr \<Rightarrow> byte list" where
  "deflate_input src = load (buffer src) 0 (unat (size_b src))"

definition DeflateBlock :: "env \<Rightarrow> buf_mgr \<Rightarrow> size_t \<Rightarrow> int \<Rightarrow> deflate_result" where
  "DeflateBlock E src extrasize flags =
     (let input = deflate_input src in
      if extrasize < size_b src + 64 then
        (let dst_size = size_b src + 64 in
         case CPLMalloc E (unat dst_size) of
           None \<Rightarrow> \<lparr> ret_ptr = None, src_after = src, mallocs = [unat dst_size] \<rparr>
         | Some dbuff \<Rightarrow>
             (case ZPack E input (unat dst_size) flags of
                (False, written) \<Rightarrow> \<lparr> ret_ptr = None, src_after = src, mallocs = [unat dst_size] \<rparr>
              | (True, written) \<Rightarrow>
                  (let packed = take (unat dst_size) written in
                   \<lparr> ret_ptr = Some 0,
                     src_after = \<lparr> buffer = store (buffer src) 0 packed,
                                   size_b = of_nat (length packed) \<rparr>,
                     mallocs = [unat dst_size] \<rparr>)))
      else
        (case ZPack E input (unat extrasize) flags of
           (False, written) \<Rightarrow>
             \<lparr> ret_ptr = None,
               src_after = src\<lparr>buffer := store (buffer src) (unat (size_b src)) (take (unat extrasize) written)\<rparr>,
               mallocs = [] \<rparr>
         | (True, written) \<Rightarrow>
             (let packed = take (unat extrasize) written in
              \<lparr> ret_ptr = Some (unat (size_b src)),
                src_after = \<lparr> buffer = store (buffer src) (unat (size_b src)) packed,
                              size_b = of_nat (length packed) \<rparr>,
                mallocs = [] \<rparr>)))"

section \<open>mrf\_band.cpp: the dataset and the band\<close>

text \<open>
  The members of \<open>GDALMRFDataset\<close> and \<open>GDALMRFRasterBand\<close> that the block functions use.
  \<open>tile\<close> is \<open>None\<close> after \<open>poDS->tile = ILSize()\<close>.  \<open>IdxMode\<close>, \<open>DataFP\<close> and
  \<open>blockSizeBytes\<close> are the values of the member functions of these names: \<open>DataFP\<close> is
  the contents of the data file, \<open>None\<close> when there is no file to read from.
  \<open>index_entries\<close> is the tile index, an entry for a byte position in the index.
\<close>

record GDALMRFDataset =
  vNoData :: "real list"
  eAccess :: GDALAccess
  source :: string
  pbuffer :: "byte list"
  pbsize :: size_t
  nBands :: int
  tile :: "ILSize option"
  bdirty :: GUIntBig
  IdxMode :: GDALRWFlag
  index_entries :: "GUIntBig \<Rightarrow> ILIdx option"
  DataFP :: "byte list option"

record GDALMRFRasterBand =
  img :: ILImage
  eDataType :: GDALDataType
  m_band :: int
  m_l :: int
  deflate :: bool
  deflate_flags :: int
  blockSizeBytes :: nat

text \<open>The calls of \<open>CPLError\<close>: the error class and the message, format unexpanded.\<close>

type_synonym error_log = "(CPLErr \<times> string) list"

text \<open>
  Modelled from the spec: \<open>GDALMRFDataset::WriteTile(buff, infooffset, size)\<close> is not among
  the source files.  The specification's index has \<open>write(coord, offset, size)\<close>; a write
  of size 0 stores no bytes and records a zero-length entry, at offset 0 for a null
  buffer and at a nonzero offset (here 1) for a deliberate empty tile; any other write
  appends the bytes to the data store and records their offset and size.
\<close>

definition WriteTile :: "GDALMRFDataset \<Rightarrow> byte list option \<Rightarrow> GUIntBig \<Rightarrow> GUIntBig \<Rightarrow> CPLErr \<times> GDALMRFDataset" where
  "WriteTile ds buff infooffset sz =
     (if sz = 0 then
        (CE_None,
         ds\<lparr>index_entries := (index_entries ds)
              (infooffset \<mapsto> \<lparr>offset = (if buff = None then 0 else 1), size_i = 0\<rparr>)\<rparr>)
      else
        (case (buff, DataFP ds) of
           (Some bytes, Some file) \<Rightarrow>
             (CE_None,
              ds\<lparr>DataFP := Some (file @ take (unat sz) bytes),
                 index_entries := (index_entries ds)
                   (infooffset \<mapsto> \<lparr>offset = of_nat (length file), size_i = sz\<rparr>)\<rparr>)
         | _ \<Rightarrow> (CE_Failure, ds)))"

text \<open>
  Modelled from the spec: \<open>GDALMRFDataset::ReadTileIdx(tinfo, req, img)\<close> is not among the
  source files.  It is the index's \<open>read(coord)\<close> at the position \<open>IdxOffset(req, img)\<close>;
  \<open>None\<close> stands for a result other than \<open>CE_None\<close>.
\<close>

definition ReadTileIdx :: "env \<Rightarrow> GDALMRFDataset \<Rightarrow> ILSize \<Rightarrow> ILImage \<Rightarrow> ILIdx option" where
  "ReadTileIdx E ds req im = index_entries ds (IdxOffset E req im)"

text \<open>
  Modelled from the spec: \<open>bandbit\<close> and \<open>AllBandMask\<close> are not among the source files.
  The specification tracks the bands in a bitmask: band \<open>b\<close> has bit \<open>b\<close>, and the all-bands
  mask has the bits of the \<open>nBands\<close> bands.
\<close>

definition bandbit :: "nat \<Rightarrow> GUIntBig" where
  "bandbit b = push_bit b 1"

definition AllBandMask :: "GDALMRFDataset \<Rightarrow> GUIntBig" where
  "AllBandMask ds = mask (nat (nBands ds))"

text \<open>\<open>getBandValue\<close> and \<open>GDALMRFRasterBand::GetNoDataValue\<close>, with the success flag.\<close>

definition getBandValue :: "real list \<Rightarrow> int \<Rightarrow> real" where
  "getBandValue v idx = (if int (length v) > idx then v ! nat idx else v ! 0)"

definition GetNoDataValue :: "env \<Rightarrow> GDALMRFDataset \<Rightarrow> GDALMRFRasterBand \<Rightarrow> real \<times> bool" where
  "GetNoDataValue E ds b =
     (if length (vNoData ds) = 0 then PamNoDataValue E
      else (getBandValue (vNoData ds) (m_band b), True))"

section \<open>mrf\_band.cpp: FillBlock\<close>

text \<open>
  \<open>memset\<close>, and \<open>buff_fill<T>\<close> with \<open>w = sizeof(T)\<close>: \<open>count / sizeof(T)\<close> elements are
  written, each the bytes \<open>ndv\<close> of the fill value.
\<close>

definition memset :: "byte list \<Rightarrow> int \<Rightarrow> nat \<Rightarrow> byte list" where
  "memset buf c n = store buf 0 (replicate n (word_of_int c))"

fun fill_loop :: "nat \<Rightarrow> byte list \<Rightarrow> nat \<Rightarrow> nat \<Rightarrow> byte list \<Rightarrow> byte list" where
  "fill_loop w b off 0 ndv = b"
| "fill_loop w b off (Suc count) ndv = fill_loop w (store b off ndv) (off + w) count ndv"

definition buff_fill :: "nat \<Rightarrow> byte list \<Rightarrow> nat \<Rightarrow> byte list \<Rightarrow> CPLErr \<times> byte list" where
  "buff_fill w b count ndv = (CE_None, fill_loop w b 0 (count div w) ndv)"

definition FillBlock :: "env \<Rightarrow> GDALMRFRasterBand \<Rightarrow> byte list \<Rightarrow> CPLErr \<times> byte list" where
  "FillBlock E b buf =
     (let ndv = (if \<not> hasNoData (img b) then 0 else NoDataValue (img b));
          bsb = blockSizeBytes b;
          bf = (\<lambda>w. buff_fill w buf bsb (pixel_of_double E (eDataType b) ndv))
      in
      if \<not> hasNoData (img b) \<or> eDataType b = GDT_Byte then
        (CE_None, memset buf (double_to_int ndv) bsb)
      else
        (case eDataType b of
           GDT_UInt16 \<Rightarrow> bf 2
         | GDT_Int16 \<Rightarrow> bf 2
         | GDT_UInt32 \<Rightarrow> bf 4
         | GDT_Int32 \<Rightarrow> bf 4
         | GDT_Float32 \<Rightarrow> bf 4
         | GDT_Float64 \<Rightarrow> bf 8
         | _ \<Rightarrow> (CE_Failure, buf)))"

section \<open>mrf\_band.cpp: RB and IReadBlock\<close>

text \<open>
  What a read returns: the error code, the caller's buffer, the dataset's page buffer,
  the blocks of the other bands that \<open>RB\<close> filled, and the calls of \<open>CPLError\<close>.
\<close>

record read_result =
  rd_err :: CPLErr
  rd_buffer :: "byte list"
  rd_pbuffer :: "byte list"
  rd_blocks :: "(nat \<times> byte list) list"
  rd_log :: error_log

text \<open>
  One round of the loop of \<open>RB\<close>, for band \<open>i\<close>: the block of the band (the caller's buffer
  for this band) receives every \<open>pagesize.c\<close>-th element of the page buffer, from element
  \<open>i\<close> on.  Element sizes other than 1, 2, 4 and 8 copy nothing.
\<close>

definition RB_band :: "env \<Rightarrow> GDALMRFDataset \<Rightarrow> GDALMRFRasterBand \<Rightarrow> int \<Rightarrow> int \<Rightarrow> nat \<Rightarrow> byte list \<Rightarrow> byte list" where
  "RB_band E ds b xblk yblk i ob =
     (let w = GDALGetDataTypeSize (eDataType b) div 8 in
      if w = 1 \<or> w = 2 \<or> w = 4 \<or> w = 8 then
        cpy_stride_in w ob 0 (pbuffer ds) i (blockSizeBytes b div w) (nat (sz_c (pagesize (img b))))
      else ob)"

fun RB_loop :: "env \<Rightarrow> GDALMRFDataset \<Rightarrow> GDALMRFRasterBand \<Rightarrow> int \<Rightarrow> int \<Rightarrow> byte list \<times> (nat \<times> byte list) list \<Rightarrow> nat list
    \<Rightarrow> byte list \<times> (nat \<times> byte list) list" where
  "RB_loop E ds b xblk yblk st [] = st"
| "RB_loop E ds b xblk yblk st (i # bands) =
     (if int i = m_band b then
        RB_loop E ds b xblk yblk (RB_band E ds b xblk yblk i (fst st), snd st) bands
      else
        RB_loop E ds b xblk yblk
          (fst st, snd st @ [(i, RB_band E ds b xblk yblk i (GetLockedBlockRef E xblk yblk i))]) bands)"

definition RB :: "env \<Rightarrow> GDALMRFDataset \<Rightarrow> GDALMRFRasterBand \<Rightarrow> int \<Rightarrow> int \<Rightarrow> byte list \<Rightarrow> CPLErr \<times> byte list \<times> (nat \<times> byte list) list" where
  "RB E ds b xblk yblk buf =
     (CE_None, RB_loop E ds b xblk yblk (buf, []) [0..<nat (nBands ds)])"

text \<open>
  A read ends with a result, or in \<open>FetchBlock\<close>, which reads from the source dataset
  and is not part of the model.
\<close>

datatype read_outcome = Returned read_result | CallsFetchBlock

text \<open>
  The deflate stage of \<open>IReadBlock\<close>: the bytes handed on to \<open>Decompress\<close>, and the
  warning when \<open>ZUnPack\<close> fails.
\<close>

definition inflate_stage :: "env \<Rightarrow> GDALMRFRasterBand \<Rightarrow> byte list \<Rightarrow> byte list \<times> error_log" where
  "inflate_stage E b data =
     (if deflate b then
        (let cap = unat (pageSizeBytes (img b) + 1440) in
         case ZUnPack E data cap (deflate_flags b) of
           (True, written) \<Rightarrow> (take cap written, [])
         | (False, written) \<Rightarrow> (data, [(CE_Warning, ''Can't inflate page!'')]))
      else (data, []))"

text \<open>
  The rest of \<open>IReadBlock\<close>, from \<open>Decompress\<close> on: the destination is the caller's buffer
  or, for interleaved pages, the page buffer; it is swapped if the byte order asks for
  it, and de-interleaved by \<open>RB\<close>.
\<close>

definition decode_stage :: "env \<Rightarrow> GDALMRFDataset \<Rightarrow> GDALMRFRasterBand \<Rightarrow> int \<Rightarrow> int \<Rightarrow> byte list \<Rightarrow> byte list \<Rightarrow> error_log \<Rightarrow> read_result" where
  "decode_stage E ds b xblk yblk buf data msgs =
     (let cstride = sz_c (pagesize (img b));
          psb = unat (pageSizeBytes (img b));
          dst_mem = (if 1 \<noteq> cstride then pbuffer ds else buf);
          dec = Decompress E data psb;
          dst = \<lparr>buffer = store dst_mem 0 (take psb (snd dec)), size_b = pageSizeBytes (img b)\<rparr>;
          dst' = (if is_Endianess_Dependent E (dt (img b)) (comp_c (img b)) \<and> nbo (img b) \<noteq> NET_ORDER E
                  then swab_buff dst (img b) else dst)
      in
      if 1 = cstride then
        \<lparr>rd_err = fst dec, rd_buffer = buffer dst', rd_pbuffer = pbuffer ds, rd_blocks = [], rd_log = msgs\<rparr>
      else if CE_None \<noteq> fst dec then
        \<lparr>rd_err = fst dec, rd_buffer = buf, rd_pbuffer = buffer dst', rd_blocks = [], rd_log = msgs\<rparr>
      else
        (case RB E (ds\<lparr>pbuffer := buffer dst'\<rparr>) b xblk yblk buf of
           (err, buf', blocks) \<Rightarrow>
             \<lparr>rd_err = err, rd_buffer = buf', rd_pbuffer = buffer dst', rd_blocks = blocks, rd_log = msgs\<rparr>))"

definition IReadBlock :: "env \<Rightarrow> GDALMRFDataset \<Rightarrow> GDALMRFRasterBand \<Rightarrow> int \<Rightarrow> int \<Rightarrow> byte list \<Rightarrow> read_outcome" where
  "IReadBlock E ds b xblk yblk buf =
     (let cstride = sz_c (pagesize (img b));
          req = \<lparr>sz_x = xblk, sz_y = yblk, sz_z = 0, sz_c = m_band b sdiv cstride, sz_l = m_l b\<rparr>;
          failed = (\<lambda>msgs. Returned \<lparr>rd_err = CE_Failure, rd_buffer = buf, rd_pbuffer = pbuffer ds,
                                    rd_blocks = [], rd_log = msgs\<rparr>)
      in
      case ReadTileIdx E ds req (img b) of
        None \<Rightarrow> failed [(CE_Failure, ''MRF: Unable to read index at offset %lld'')]
      | Some tinfo \<Rightarrow>
          if 0 = size_i tinfo then
            (if 0 \<noteq> offset tinfo \<or> GA_Update = eAccess ds \<or> source ds = [] \<or> IdxMode ds = GF_Read then
               (case FillBlock E b buf of
                  (err, buf') \<Rightarrow>
                    Returned \<lparr>rd_err = err, rd_buffer = buf', rd_pbuffer = pbuffer ds,
                              rd_blocks = [], rd_log = []\<rparr>)
             else CallsFetchBlock)
          else
            (case DataFP ds of
               None \<Rightarrow> failed []
             | Some file \<Rightarrow>
                 if \<not> unat (offset tinfo) + unat (size_i tinfo) \<le> length file then
                   failed [(CE_Failure, ''Unable to read data page, %ld@%lx'')]
                 else
                   (let data = load file (unat (offset tinfo)) (unat (size_i tinfo));
                        inf = inflate_stage E b data
                    in Returned (decode_stage E ds b xblk yblk buf (fst inf) (snd inf)))))"

section \<open>mrf\_band.cpp: IWriteBlock\<close>

text \<open>
  What a write returns: the error code, the dataset, the caller's buffer (the byte swap
  is done in place), the calls of \<open>CPLError\<close>, and the arguments of the call of
  \<open>WriteTile\<close> if one was made: the bytes at the buffer pointer (\<open>None\<close> for a null
  pointer), the index position and the size.
\<close>

record write_result =
  wr_err :: CPLErr
  wr_ds :: GDALMRFDataset
  wr_buffer :: "byte list"
  wr_log :: error_log
  wr_call :: "(byte list option \<times> GUIntBig \<times> GUIntBig) option"

text \<open>The statement \<open>return poDS->WriteTile(buff, infooffset, size)\<close>.\<close>

definition return_WriteTile :: "GDALMRFDataset \<Rightarrow> byte list option \<Rightarrow> GUIntBig \<Rightarrow> GUIntBig \<Rightarrow> byte list \<Rightarrow> error_log \<Rightarrow> write_result" where
  "return_WriteTile ds buff infooffset sz buf msgs =
     \<lparr>wr_err = fst (WriteTile ds buff infooffset sz), wr_ds = snd (WriteTile ds buff infooffset sz),
      wr_buffer = buf, wr_log = msgs, wr_call = Some (buff, infooffset, sz)\<rparr>"

text \<open>
  The test \<open>(eDataType == GDT_Byte) && (poDS->vNoData.size())\<close> and the value
  \<open>char(GetNoDataValue(0))\<close>.
\<close>

definition byte_nodata :: "GDALMRFDataset \<Rightarrow> GDALMRFRasterBand \<Rightarrow> bool" where
  "byte_nodata ds b \<longleftrightarrow> eDataType b = GDT_Byte \<and> length (vNoData ds) \<noteq> 0"

definition nodata_char :: "env \<Rightarrow> GDALMRFDataset \<Rightarrow> GDALMRFRasterBand \<Rightarrow> byte" where
  "nodata_char E ds b = double_to_char (fst (GetNoDataValue E ds b))"

text \<open>The test \<open>is_Endianess_Dependent(img.dt, img.comp) && (img.nbo != NET_ORDER)\<close>.\<close>

definition needs_swab :: "env \<Rightarrow> ILImage \<Rightarrow> bool" where
  "needs_swab E im \<longleftrightarrow> is_Endianess_Dependent E (dt im) (comp_c im) \<and> nbo im \<noteq> NET_ORDER E"

text \<open>The branch \<open>1 == cstride\<close>: separate bands.\<close>

definition write_separate :: "env \<Rightarrow> GDALMRFDataset \<Rightarrow> GDALMRFRasterBand \<Rightarrow> GUIntBig \<Rightarrow> byte list \<Rightarrow> write_result" where
  "write_separate E ds b infooffset buf =
     (let psb = unat (pageSizeBytes (img b)) in
      if byte_nodata ds b \<and> is_empty_buf buf psb (nodata_char E ds b) then
        return_WriteTile ds None infooffset 0 buf []
      else if \<not> byte_nodata ds b \<and> is_zero buf psb then
        return_WriteTile ds None infooffset 0 buf []
      else
        (let ds1 = ds\<lparr>tile := None\<rparr>;
             src0 = \<lparr>buffer = buf, size_b = pageSizeBytes (img b)\<rparr>;
             src = (if needs_swab E (img b) then swab_buff src0 (img b) else src0);
             packed = take (unat (pbsize ds)) (Compress E (load (buffer src) 0 (unat (size_b src))) (unat (pbsize ds)));
             dst = \<lparr>buffer = store (pbuffer ds) 0 packed, size_b = of_nat (length packed)\<rparr>
         in
         if deflate b then
           (let r = DeflateBlock E dst (pbsize ds - size_b dst) (deflate_flags b);
                ds2 = ds1\<lparr>pbuffer := buffer (src_after r)\<rparr>
            in
            case ret_ptr r of
              None \<Rightarrow> \<lparr>wr_err = CE_Failure, wr_ds = ds2, wr_buffer = buffer src,
                        wr_log = [(CE_Failure, ''MRF: Deflate error'')], wr_call = None\<rparr>
            | Some p \<Rightarrow>
                return_WriteTile ds2 (Some (drop p (buffer (src_after r)))) infooffset
                  (size_b (src_after r)) (buffer src) [])
         else
           return_WriteTile (ds1\<lparr>pbuffer := buffer dst\<rparr>) (Some (buffer dst)) infooffset (size_b dst)
             (buffer src) []))"

text \<open>
  The state of the band loop of the interleaved branch: \<open>poDS->bdirty\<close>, \<open>empties\<close>, the
  page under assembly, and whether the loop has left through \<open>return CE_Failure\<close>.
\<close>

record asm_state =
  as_bdirty :: GUIntBig
  as_empties :: GUIntBig
  as_tbuffer :: "byte list"
  as_failed :: bool

text \<open>
  The image of band \<open>iBand\<close> in the band loop: the caller's buffer for the band being
  written, else the band's block if the block cache holds it.  \<open>None\<close> is the \<open>continue\<close>
  of the loop.
\<close>

definition pabyThisImage :: "env \<Rightarrow> GDALMRFRasterBand \<Rightarrow> int \<Rightarrow> int \<Rightarrow> byte list \<Rightarrow> nat \<Rightarrow> byte list option" where
  "pabyThisImage E b xblk yblk buf iBand =
     (if int iBand = m_band b then Some buf else TryGetLockedBlockRef E xblk yblk iBand)"

text \<open>
  The body of the band loop for \<open>iBand\<close>.  A band whose block is not in the cache is
  skipped.  The emptiness of every band is tested against the NoData value of the band
  being written.
\<close>

definition band_step :: "env \<Rightarrow> GDALMRFDataset \<Rightarrow> GDALMRFRasterBand \<Rightarrow> int \<Rightarrow> int \<Rightarrow> byte list \<Rightarrow> asm_state \<Rightarrow> nat \<Rightarrow> asm_state" where
  "band_step E ds b xblk yblk buf st iBand =
     (case pabyThisImage E b xblk yblk buf iBand of
        None \<Rightarrow> st
      | Some this_image \<Rightarrow>
          (let st1 = st\<lparr>as_bdirty := as_bdirty st OR bandbit iBand\<rparr>;
               bsb = blockSizeBytes b;
               st2 = (if byte_nodata ds b then
                        (if is_empty_buf this_image bsb (nodata_char E ds b)
                         then st1\<lparr>as_empties := as_empties st1 OR bandbit iBand\<rparr> else st1)
                      else if is_zero this_image bsb
                        then st1\<lparr>as_empties := as_empties st1 OR bandbit iBand\<rparr> else st1);
               w = GDALGetDataTypeSize (eDataType b) div 8
           in
           if w = 1 \<or> w = 2 \<or> w = 4 \<or> w = 8 then
             st2\<lparr>as_tbuffer := cpy_stride_out w (as_tbuffer st2) iBand this_image 0 (bsb div w)
                                  (nat (sz_c (pagesize (img b))))\<rparr>
           else st2\<lparr>as_failed := True\<rparr>))"

fun assemble :: "(asm_state \<Rightarrow> nat \<Rightarrow> asm_state) \<Rightarrow> asm_state \<Rightarrow> nat list \<Rightarrow> asm_state" where
  "assemble step st [] = st"
| "assemble step st (iBand # bands) =
     (let st' = step st iBand in if as_failed st' then st' else assemble step st' bands)"

text \<open>
  The end of the interleaved branch, from \<open>buf_mgr src = {(char *)tbuffer,
  img.pageSizeBytes}\<close> on: the page at the start of \<open>tbuffer\<close> is compressed into the space
  behind it, deflated if asked for, and written.
\<close>

definition write_page :: "env \<Rightarrow> GDALMRFDataset \<Rightarrow> GDALMRFRasterBand \<Rightarrow> GUIntBig \<Rightarrow> byte list \<Rightarrow> error_log \<Rightarrow> byte list \<Rightarrow> write_result" where
  "write_page E ds b infooffset buf msgs tbuffer =
     (let psb = unat (pageSizeBytes (img b));
          packed = take (unat (pbsize ds)) (Compress E (load tbuffer 0 psb) (unat (pbsize ds)));
          tb1 = store tbuffer psb packed;
          dst_size = (of_nat (length packed) :: size_t)
      in
      if deflate b then
        (let tb2 = store tb1 0 (load tb1 psb (unat dst_size));
             r = DeflateBlock E \<lparr>buffer = tb2, size_b = dst_size\<rparr>
                   (pageSizeBytes (img b) + pbsize ds - dst_size) (deflate_flags b)
         in
         case ret_ptr r of
           None \<Rightarrow> \<lparr>wr_err = CE_Failure, wr_ds = ds, wr_buffer = buf,
                     wr_log = msgs @ [(CE_Failure, ''MRF: Deflate error'')], wr_call = None\<rparr>
         | Some p \<Rightarrow>
             (let wt = return_WriteTile ds (Some (drop p (buffer (src_after r)))) infooffset
                         (size_b (src_after r)) buf msgs
              in wt\<lparr>wr_ds := (wr_ds wt)\<lparr>bdirty := 0\<rparr>\<rparr>))
      else
        (let wt = return_WriteTile ds (Some (drop psb tb1)) infooffset dst_size buf msgs
         in wt\<lparr>wr_ds := (wr_ds wt)\<lparr>bdirty := 0\<rparr>\<rparr>))"

text \<open>
  The band loop \<open>for (int iBand = 0; iBand < poDS->nBands; iBand++)\<close>, started on the
  fresh \<open>tbuffer\<close>.
\<close>

definition band_loop :: "env \<Rightarrow> GDALMRFDataset \<Rightarrow> GDALMRFRasterBand \<Rightarrow> int \<Rightarrow> int \<Rightarrow> byte list \<Rightarrow> byte list \<Rightarrow> asm_state" where
  "band_loop E ds b xblk yblk buf tbuffer =
     assemble (band_step E ds b xblk yblk buf)
       \<lparr>as_bdirty = 0, as_empties = 0, as_tbuffer = tbuffer, as_failed = False\<rparr>
       [0..<nat (nBands ds)]"

text \<open>The branch for several bands per page.\<close>

definition write_interleaved :: "env \<Rightarrow> GDALMRFDataset \<Rightarrow> GDALMRFRasterBand \<Rightarrow> int \<Rightarrow> int \<Rightarrow> ILSize \<Rightarrow> GUIntBig \<Rightarrow> byte list \<Rightarrow> write_result" where
  "write_interleaved E ds b xblk yblk req infooffset buf =
     (let ds1 = ds\<lparr>tile := Some req, bdirty := 0\<rparr> in
      case CPLMalloc E (unat (pageSizeBytes (img b) + pbsize ds)) of
        None \<Rightarrow> \<lparr>wr_err = CE_Failure, wr_ds = ds1, wr_buffer = buf,
                  wr_log = [(CE_Failure, ''MRF: Can't allocate write buffer'')], wr_call = None\<rparr>
      | Some tbuffer \<Rightarrow>
          (let st = band_loop E ds b xblk yblk buf tbuffer;
               ds2 = ds1\<lparr>bdirty := as_bdirty st\<rparr>
           in
           if as_failed st then
             \<lparr>wr_err = CE_Failure, wr_ds = ds2, wr_buffer = buf,
              wr_log = [(CE_Failure, ''MRF: Write datatype of %d bytes not implemented'')],
              wr_call = None\<rparr>
           else if as_empties st = AllBandMask ds then
             return_WriteTile ds2 None infooffset 0 buf []
           else
             write_page E ds2 b infooffset buf
               (if as_bdirty st \<noteq> AllBandMask ds
                then [(CE_Warning, ''MRF: IWrite, band dirty mask is %0llx instead of %lld'')]
                else [])
               (as_tbuffer st)))"

text \<open>
  The first two statements of \<open>IWriteBlock\<close>: \<open>ILSize req(xblk, yblk, 0, m_band/cstride,
  m_l)\<close> and \<open>infooffset = IdxOffset(req, img)\<close>.
\<close>

definition tile_req :: "GDALMRFRasterBand \<Rightarrow> int \<Rightarrow> int \<Rightarrow> ILSize" where
  "tile_req b xblk yblk =
     \<lparr>sz_x = xblk, sz_y = yblk, sz_z = 0, sz_c = m_band b sdiv sz_c (pagesize (img b)), sz_l = m_l b\<rparr>"

definition infooffset :: "env \<Rightarrow> GDALMRFRasterBand \<Rightarrow> int \<Rightarrow> int \<Rightarrow> GUIntBig" where
  "infooffset E b xblk yblk = IdxOffset E (tile_req b xblk yblk) (img b)"

definition IWriteBlock :: "env \<Rightarrow> GDALMRFDataset \<Rightarrow> GDALMRFRasterBand \<Rightarrow> int \<Rightarrow> int \<Rightarrow> byte list \<Rightarrow> write_result" where
  "IWriteBlock E ds b xblk yblk buf =
     (if 1 = sz_c (pagesize (img b))
      then write_separate E ds b (infooffset E b xblk yblk) buf
      else write_interleaved E ds b xblk yblk (tile_req b xblk yblk) (infooffset E b xblk yblk) buf)"

section \<open>DeflateBlock: the failures of the specification\<close>

text \<open>
  The size of the destination that \<open>DeflateBlock\<close> hands to \<open>ZPack\<close>, and the two
  failures the specification names: the temporary buffer cannot be allocated, or the
  compression fails.
\<close>

definition deflate_capacity :: "buf_mgr \<Rightarrow> size_t \<Rightarrow> nat" where
  "deflate_capacity src extrasize =
     (if extrasize < size_b src + 64 then unat (size_b src + 64) else unat extrasize)"

definition deflate_failure :: "env \<Rightarrow> buf_mgr \<Rightarrow> size_t \<Rightarrow> int \<Rightarrow> bool" where
  "deflate_failure E src extrasize flags \<longleftrightarrow>
     (extrasize < size_b src + 64 \<and> CPLMalloc E (unat (size_b src + 64)) = None) \<or>
     \<not> fst (ZPack E (deflate_input src) (deflate_capacity src extrasize) flags)"

section \<open>FillBlock: the buffer the specification expects\<close>

text \<open>
  A buffer filled entirely with the declared NoData value, or with 0 when no NoData value
  is declared: \<open>blockSizeBytes\<close> zero bytes, or the NoData byte repeated, or the bytes of the
  NoData pixel repeated for every pixel.  \<open>fill_types\<close> are the data types that \<open>FillBlock\<close>
  has a fill for.
\<close>

definition fill_pattern :: "env \<Rightarrow> GDALMRFRasterBand \<Rightarrow> byte list" where
  "fill_pattern E b =
     (if \<not> hasNoData (img b) then replicate (blockSizeBytes b) 0
      else if eDataType b = GDT_Byte
        then replicate (blockSizeBytes b) (word_of_int (double_to_int (NoDataValue (img b))))
      else concat (replicate (blockSizeBytes b div (GDALGetDataTypeSize (eDataType b) div 8))
                     (pixel_of_double E (eDataType b) (NoDataValue (img b)))))"

definition fill_types :: "GDALDataType set" where
  "fill_types = {GDT_Byte, GDT_UInt16, GDT_Int16, GDT_UInt32, GDT_Int32, GDT_Float32, GDT_Float64}"

section \<open>IWriteBlock: empty bands of an interleaved page\<close>

text \<open>
  Band \<open>iBand\<close> is resident (it is the band being written, or the block cache holds its
  block) and passes the emptiness test of the band loop: its image is entirely the
  NoData byte (Byte data with a NoData list), or entirely zero.
\<close>

definition band_tested_empty :: "env \<Rightarrow> GDALMRFDataset \<Rightarrow> GDALMRFRasterBand \<Rightarrow> int \<Rightarrow> int \<Rightarrow> byte list \<Rightarrow> nat \<Rightarrow> bool" where
  "band_tested_empty E ds b xblk yblk buf iBand =
     (case pabyThisImage E b xblk yblk buf iBand of
        None \<Rightarrow> False
      | Some this_image \<Rightarrow>
          if byte_nodata ds b then is_empty_buf this_image (blockSizeBytes b) (nodata_char E ds b)
          else is_zero this_image (blockSizeBytes b))"

text \<open>
  The page \<open>page\<close> holds band \<open>iBand\<close> interleaved: pixel \<open>k\<close> of the band's image is pixel
  \<open>iBand + k * N\<close> of the page, for pixels of \<open>w\<close> bytes and \<open>N\<close> bands per page.
\<close>

definition page_holds_band :: "nat \<Rightarrow> nat \<Rightarrow> nat \<Rightarrow> byte list \<Rightarrow> nat \<Rightarrow> byte list \<Rightarrow> bool" where
  "page_holds_band w N count page iBand this_image \<longleftrightarrow>
     (\<forall>k < count. load page ((iBand + k * N) * w) w = load this_image (k * w) w)"


section \<open>IReadBlock: the decoded page\<close>

text \<open>
  The destination memory \<open>mem\<close> after the decodec has written the page it makes of the
  bytes \<open>data\<close>, swapped where the byte order of the store asks for it.
\<close>

definition decoded_page :: "env \<Rightarrow> GDALMRFRasterBand \<Rightarrow> byte list \<Rightarrow> byte list \<Rightarrow> byte list" where
  "decoded_page E b mem data =
     (let psb = unat (pageSizeBytes (img b));
          page = \<lparr>buffer = store mem 0 (take psb (snd (Decompress E data psb))),
                  size_b = pageSizeBytes (img b)\<rparr>
      in buffer (if needs_swab E (img b) then swab_buff page (img b) else page))"

section \<open>An instance of the parameters, for the examples\<close>

text \<open>
  Pixels are little-endian integers.  The codec and the zlib wrapper store their input
  as it is and fail when it does not fit; the allocator returns zeroed blocks; the block
  cache is empty; index entries are 16 bytes apart along \<open>x\<close>.
\<close>

fun le_bytes :: "nat \<Rightarrow> int \<Rightarrow> byte list" where
  "le_bytes 0 k = []"
| "le_bytes (Suc n) k = word_of_int k # le_bytes n (k div 256)"

definition raw_env :: env where
  "raw_env =
     \<lparr> ZPack = (\<lambda>src cap flags. (length src \<le> cap, src)),
       ZUnPack = (\<lambda>src cap flags. (length src \<le> cap, src)),
       CPLMalloc = (\<lambda>n. Some (replicate n 0)),
       Compress = (\<lambda>src cap. src),
       Decompress = (\<lambda>src cap. (if length src = cap then CE_None else CE_Failure, src)),
       is_Endianess_Dependent = (\<lambda>dt comp. 8 < GDALGetDataTypeSize dt),
       NET_ORDER = False,
       IdxOffset = (\<lambda>req img. 16 * word_of_int (sz_x req)),
       pixel_of_double = (\<lambda>dt v. le_bytes (GDALGetDataTypeSize dt div 8) (double_to_int v)),
       PamNoDataValue = (0, False),
       TryGetLockedBlockRef = (\<lambda>xblk yblk iBand. None),
       GetLockedBlockRef = (\<lambda>xblk yblk iBand. []) \<rparr>"

text \<open>The same with a zlib wrapper that writes two bytes and fails.\<close>

definition failing_zlib_env :: env where
  "failing_zlib_env =
     raw_env\<lparr> ZPack := (\<lambda>src cap flags. (False, [7, 7])),
              ZUnPack := (\<lambda>src cap flags. (False, [7, 7])) \<rparr>"

text \<open>
  A store with one band of two 16-bit pixels per tile, NoData 1, and a store with two
  interleaved bands of that kind whose byte order is not the network order.
\<close>

definition int16_image :: ILImage where
  "int16_image =
     \<lparr>pagesize = \<lparr>sz_x = 2, sz_y = 1, sz_z = 1, sz_c = 1, sz_l = 0\<rparr>, pageSizeBytes = 4,
      dt = GDT_Int16, comp_c = 0, nbo = False, NoDataValue = 1, hasNoData = True\<rparr>"

definition int16_band :: GDALMRFRasterBand where
  "int16_band =
     \<lparr>img = int16_image, eDataType = GDT_Int16, m_band = 0, m_l = 0, deflate = False,
      deflate_flags = 0, blockSizeBytes = 4\<rparr>"

definition int16_ds :: GDALMRFDataset where
  "int16_ds =
     \<lparr>vNoData = [1], eAccess = GA_Update, source = [], pbuffer = replicate 8 0, pbsize = 8,
      nBands = 1, tile = None, bdirty = 0, IdxMode = GF_Write, index_entries = Map.empty,
      DataFP = Some []\<rparr>"

definition swapped_image :: "int \<Rightarrow> ILImage" where
  "swapped_image c =
     int16_image\<lparr>pagesize := \<lparr>sz_x = 2, sz_y = 1, sz_z = 1, sz_c = c, sz_l = 0\<rparr>,
                 pageSizeBytes := 4 * word_of_int c, nbo := True\<rparr>"

definition swapped_band :: "int \<Rightarrow> GDALMRFRasterBand" where
  "swapped_band c = int16_band\<lparr>img := swapped_image c\<rparr>"

definition two_band_ds :: GDALMRFDataset where
  "two_band_ds = int16_ds\<lparr>nBands := 2, pbuffer := replicate 16 0, pbsize := 16\<rparr>"

text \<open>The block cache holding the block \<open>[5, 6, 7, 8]\<close> of the second band.\<close>

definition cached_env :: env where
  "cached_env =
     raw_env\<lparr>TryGetLockedBlockRef := (\<lambda>xblk yblk iBand. if iBand = 1 then Some [5, 6, 7, 8] else None),
             GetLockedBlockRef := (\<lambda>xblk yblk iBand. [0, 0, 0, 0])\<rparr>"





text \<open>
  A store opened for update in which no tile has been written: every index entry is
  \<open>(0, 0)\<close>.  A band of complex 16-bit integers with NoData 1.
\<close>

definition fresh_ds :: GDALMRFDataset where
  "fresh_ds = int16_ds\<lparr>index_entries := (\<lambda>pos. Some \<lparr>offset = 0, size_i = 0\<rparr>)\<rparr>"

definition cint16_band :: GDALMRFRasterBand where
  "cint16_band = int16_band\<lparr>img := int16_image\<lparr>dt := GDT_CInt16\<rparr>, eDataType := GDT_CInt16\<rparr>"

text \<open>A store whose index entries all point at the four bytes of its data file.\<close>

definition stored_ds :: GDALMRFDataset where
  "stored_ds =
     int16_ds\<lparr>index_entries := (\<lambda>pos. Some \<lparr>offset = 0, size_i = 4\<rparr>), DataFP := Some [1, 0, 2, 0]\<rparr>"

text \<open>
  The store of two interleaved bands with one page in its data file, and a block cache
  whose zlib wrapper cannot inflate.
\<close>

definition stored_two_band_ds :: GDALMRFDataset where
  "stored_two_band_ds =
     two_band_ds\<lparr>index_entries := (\<lambda>pos. Some \<lparr>offset = 0, size_i = 8\<rparr>),
                 DataFP := Some [1, 2, 5, 6, 3, 4, 7, 8]\<rparr>"

definition failing_unzip_env :: env where
  "failing_unzip_env = cached_env\<lparr>ZUnPack := (\<lambda>src cap flags. (False, [7, 7]))\<rparr>"

text \<open>
  Two interleaved bands of one complex pixel of 16 bytes, and the block of an empty
  (all-zero) second band in the cache.
\<close>

definition cfloat64_band :: GDALMRFRasterBand where
  "cfloat64_band =
     \<lparr>img = \<lparr>pagesize = \<lparr>sz_x = 1, sz_y = 1, sz_z = 1, sz_c = 2, sz_l = 0\<rparr>, pageSizeBytes = 32,
             dt = GDT_CFloat64, comp_c = 0, nbo = False, NoDataValue = 0, hasNoData = False\<rparr>,
      eDataType = GDT_CFloat64, m_band = 0, m_l = 0, deflate = False, deflate_flags = 0,
      blockSizeBytes = 16\<rparr>"

definition cfloat64_ds :: GDALMRFDataset where
  "cfloat64_ds =
     \<lparr>vNoData = [], eAccess = GA_Update, source = [], pbuffer = replicate 32 0, pbsize = 32,
      nBands = 2, tile = None, bdirty = 0, IdxMode = GF_Write, index_entries = Map.empty,
      DataFP = Some []\<rparr>"






section \<open>Properties of the overview patch propagator\<close>

lemma sint_c_div_2: "sint (c_div a 2) = sint a sdiv 2"
proof -
  have r: "- (2 ^ 31) \<le> sint a" "sint a < 2 ^ 31"
    using sint_ge [of a] sint_lt [of a] by simp_all
  have "- (2 ^ 31) \<le> sint a sdiv 2 \<and> sint a sdiv 2 < 2 ^ 31"
    using r by (simp add: signed_divide_int_def sgn_if) linarith
  then show ?thesis
    by (simp add: c_div_def sint_sbintrunc' signed_take_bit_int_eq_self)
qed

lemma sint_c_div_2_bounds: "- (2 ^ 30) \<le> sint (c_div a 2) \<and> sint (c_div a 2) \<le> 2 ^ 30 - 1"
proof -
  have r: "- (2 ^ 31) \<le> sint a" "sint a < 2 ^ 31"
    using sint_ge [of a] sint_lt [of a] by simp_all
  show ?thesis unfolding sint_c_div_2
    using r by (simp add: signed_divide_int_def sgn_if) linarith
qed

text \<open>The lowest bit of a two's complement word is the parity of its value.\<close>

lemma sint_and_1: "sint ((a::cint) AND 1) = sint a mod 2"
proof -
  have "a AND 1 = (if odd a then 1 else 0)"
    by (simp add: and_one_eq mod_2_eq_odd)
  moreover have "odd a \<longleftrightarrow> odd (sint a)"
    by (simp add: bit_sint_iff flip: bit_0)
  ultimately show ?thesis
    by (auto simp add: mod_2_eq_odd)
qed

text \<open>Half of an \<open>int\<close> plus two bits stays inside the type: the sum does not wrap.\<close>

lemma sint_halve_sum:
  "sint (c_div w 2 + (w AND 1) + (x AND 1)) = sint w sdiv 2 + sint w mod 2 + sint x mod 2"
proof -
  let ?k = "sint (c_div w 2) + sint (w AND 1) + sint (x AND 1)"
  have b: "- (2 ^ 31) \<le> ?k \<and> ?k < 2 ^ 31"
    using sint_c_div_2_bounds [of w] by (simp add: sint_and_1) linarith
  have "c_div w 2 + (w AND 1) + (x AND 1) = word_of_int ?k"
    by simp
  then have "sint (c_div w 2 + (w AND 1) + (x AND 1)) = signed_take_bit 31 ?k"
    by (simp only: sint_sbintrunc') simp
  also have "\<dots> = ?k"
    using b by (simp add: signed_take_bit_int_eq_self)
  finally show ?thesis
    by (simp add: sint_and_1 sint_c_div_2)
qed

text \<open>
  Claim C1.  One step of the level loop updates the region by the rule of the
  specification: the new width is \<open>width/2 + (width mod 2) + (blockX mod 2)\<close>, the new
  height is \<open>height/2 + (height mod 2) + (blockY mod 2)\<close>, and the new block offsets are
  \<open>blockX/2\<close> and \<open>blockY/2\<close>, where \<open>/\<close> truncates and \<open>mod 2\<close> is the parity, 0 or 1.
  This holds for every value of the four \<open>int\<close> variables: no step overflows.
\<close>

theorem level_step_rule:
  "region_ints (level_step r) = spec_level_step (region_ints r)"
  by (simp add: region_ints_def level_step_def spec_level_step_def Let_def sint_halve_sum sint_c_div_2)

text \<open>
  For a region of non-negative block offsets and sizes the parity is also the C
  remainder \<open>%\<close>, and the region stays non-negative.
\<close>

lemma spec_level_step_nonneg:
  assumes "0 \<le> x" "0 \<le> y" "0 \<le> w" "0 \<le> h"
  shows "spec_level_step (x, y, w, h)
           = (x sdiv 2, y sdiv 2, w sdiv 2 + w smod 2 + x smod 2, h sdiv 2 + h smod 2 + y smod 2) \<and>
         0 \<le> x sdiv 2 \<and> 0 \<le> y sdiv 2 \<and> 0 \<le> w sdiv 2 + w mod 2 + x mod 2 \<and>
         0 \<le> h sdiv 2 + h mod 2 + y mod 2"
  using assms
  by (simp add: spec_level_step_def signed_modulo_int_def signed_divide_int_def sgn_if
      pos_imp_zdiv_nonneg_iff)

text \<open>
  The loop applies the step once per source level, whether or not the level is patched:
  the region handed to \<open>PatchOverview\<close> at source level \<open>sl\<close> is the base region after
  \<open>sl\<close> steps.
\<close>

lemma overview_loop_region:
  "snd (overview_loop a b r sls) = (level_step ^^ length sls) r"
  by (induction sls arbitrary: r) (simp_all add: Let_def funpow_swap1)

lemma overview_loop_calls:
  "(q, sl) \<in> set (fst (overview_loop a b r [k..<n])) \<Longrightarrow>
     q = (level_step ^^ (sl - k)) r \<and> k \<le> sl \<and> sl < n"
proof (induction "n - k" arbitrary: k r)
  case 0
  then show ?case by simp
next
  case (Suc d)
  then have kn: "k < n" by simp
  then have u: "[k..<n] = k # [Suc k..<n]" by (simp add: upt_conv_Cons)
  from Suc.prems have "(q, sl) = (r, k) \<or> (q, sl) \<in> set (fst (overview_loop a b (level_step r) [Suc k..<n]))"
    by (auto simp add: u Let_def split: if_splits)
  then show ?case
  proof
    assume "(q, sl) = (r, k)"
    with kn show ?thesis by simp
  next
    assume m: "(q, sl) \<in> set (fst (overview_loop a b (level_step r) [Suc k..<n]))"
    have "d = n - Suc k" using Suc.hyps(2) by simp
    from Suc.hyps(1) [OF this m]
    have "q = (level_step ^^ (sl - Suc k)) (level_step r)" "Suc k \<le> sl" "sl < n"
      by simp_all
    moreover from \<open>Suc k \<le> sl\<close> have "sl - k = Suc (sl - Suc k)" by simp
    ultimately show ?thesis by (simp add: funpow_swap1)
  qed
qed

lemma patch_overviews_calls:
  "(q, sl) \<in> set (patch_overviews start_level stop_level overview_count r) \<Longrightarrow>
     q = (level_step ^^ sl) r \<and> sl < overview_count"
  using overview_loop_calls [of q sl _ _ r 0 overview_count]
  by (simp add: patch_overviews_def Let_def)

text \<open>
  Claim C8.  The specification's example expects the level-1 region \<open>(blockX = 1,
  blockY = 2, width = 3, height = 2)\<close> from the base region \<open>(3, 5, 4, 3)\<close>.  The step
  gives height \<open>3/2 + 1 + 1 = 3\<close>, not 2.
\<close>

theorem level_step_example_counterexample:
  "region_ints (level_step \<lparr>BlockXOut = 3, BlockYOut = 5, WidthOut = 4, HeightOut = 3\<rparr>) \<noteq> (1, 2, 3, 2)"
  by (simp add: region_ints_def level_step_def c_div_def signed_divide_int_def)

text \<open>
  Claim C8, amended.  The level-1 region of the base region \<open>(blockX = 3, blockY = 5,
  width = 4, height = 3)\<close> is \<open>(blockX = 1, blockY = 2, width = 3, height = 3)\<close>.
\<close>

theorem level_step_example:
  "region_ints (level_step \<lparr>BlockXOut = 3, BlockYOut = 5, WidthOut = 4, HeightOut = 3\<rparr>) = (1, 2, 3, 3)"
  by (simp add: region_ints_def level_step_def c_div_def signed_divide_int_def)

section \<open>Properties of ClippedRasterIO\<close>

lemma sint_range32: "- (2 ^ 31) \<le> sint (a :: cint) \<and> sint a < 2 ^ 31"
  using sint_ge [of a] sint_lt [of a] by simp

text \<open>Where the mathematical result fits an \<open>int\<close>, the machine result is that number.\<close>

lemma sint_add_ok: "int_ok (sint a + sint b) \<Longrightarrow> sint (a + b :: cint) = sint a + sint b"
  by (simp add: int_ok_def sint_word_ariths signed_take_bit_int_eq_self)

lemma sint_sub_nonneg:
  "0 \<le> sint a \<Longrightarrow> 0 \<le> sint b \<Longrightarrow> sint (a - b :: cint) = sint a - sint b"
  using sint_range32 [of a] sint_range32 [of b]
  by (simp add: sint_word_ariths signed_take_bit_int_eq_self)

lemma clip_end_inside:
  assumes "int_ok (sint nOff + sint nSize)" "0 \<le> sint Size" "0 \<le> sint nOff"
  shows "sint nOff + sint (clip_end Size nOff nSize) \<le> sint Size"
  using assms by (simp add: clip_end_def sint_add_ok sint_sub_nonneg)

lemma clip_x_inside:
  assumes "int_ok (sint nXOff + sint nXSize)" "0 \<le> sint XSize"
    and "clip_x XSize nXOff nXSize nPixelSpace d = (x, w, d')"
  shows "0 \<le> sint x \<and> sint x + sint w \<le> sint XSize \<and> (0 \<le> sint nXOff \<longrightarrow> x = nXOff)"
proof (cases "sint nXOff < 0")
  case True
  have s: "sint (nXSize + nXOff) = sint nXSize + sint nXOff"
    using assms(1) by (intro sint_add_ok) (simp add: add.commute)
  have "int_ok (sint (0 :: cint) + sint (nXSize + nXOff))"
    using assms(1) s by (simp add: add.commute)
  from clip_end_inside [OF this assms(2)] True assms(3) show ?thesis
    by (auto simp add: clip_x_def clip_test_def)
next
  case False
  then have n: "0 \<le> sint nXOff" by simp
  from clip_end_inside [OF assms(1,2) n] False assms(1,3) show ?thesis
    by (auto simp add: clip_x_def clip_test_def sint_add_ok split: if_splits)
qed

lemma clip_y_inside:
  assumes "int_ok (sint nYOff + sint nYSize)" "0 \<le> sint YSize"
    and "clip_y YSize nYOff nYSize nLineSpace d = (y, h, d')"
  shows "0 \<le> sint y \<and> sint y + sint h \<le> sint YSize"
proof (cases "sint nYOff < 0")
  case True
  have s: "sint (nYSize + nYOff) = sint nYSize + sint nYOff"
    using assms(1) by (intro sint_add_ok) (simp add: add.commute)
  have "int_ok (sint (0 :: cint) + sint (nYSize + nYOff))"
    using assms(1) s by (simp add: add.commute)
  from clip_end_inside [OF this assms(2)] True assms(3) show ?thesis
    by (auto simp add: clip_y_def clip_test_def)
next
  case False
  then have n: "0 \<le> sint nYOff" by simp
  from clip_end_inside [OF assms(1,2) n] False assms(1,3) show ?thesis
    by (auto simp add: clip_y_def clip_test_def sint_add_ok split: if_splits)
qed

text \<open>
  Claim C10 as stated fails for a request whose sum \<open>nXOff + nXSize\<close> overflows \<open>int\<close>.
  On a band of 100 by 80 pixels, the request of one pixel at X offset 2147483647: the sum
  wraps to \<open>INT_MIN\<close>, the test for an unclipped read passes, and the window handed to
  \<open>RasterIO\<close> starts and ends far beyond the band.
\<close>

theorem ClippedRasterIO_overflow_counterexample:
  "0 \<le> sint (100 :: cint) \<and> 0 \<le> sint (80 :: cint) \<and>
   \<not> int_ok (sint (2147483647 :: cint) + sint (1 :: cint)) \<and>
   ClippedRasterIO 100 80 GF_Read 2147483647 0 1 1 1 100 = RasterIO 2147483647 0 1 1 0 \<and>
   \<not> sint (2147483647 :: cint) + sint (1 :: cint) \<le> sint (100 :: cint)"
  by (simp add: ClippedRasterIO_def no_clip_needed_def int_ok_def)

text \<open>
  Claim C10, amended.  For a read request whose sums \<open>nXOff + nXSize\<close> and
  \<open>nYOff + nYSize\<close> fit an \<open>int\<close>, however far the requested window extends below zero or
  beyond the band: \<open>ClippedRasterIO\<close> hands a window to the band's \<open>RasterIO\<close>, and that
  window starts at non-negative offsets and ends inside the band, \<open>nXOff \<ge> 0\<close>,
  \<open>nYOff \<ge> 0\<close>, \<open>nXOff + nXSize \<le> GetXSize()\<close> and \<open>nYOff + nYSize \<le> GetYSize()\<close>, the
  sums taken on the integers.  The sizes of a band are not negative.
\<close>

theorem ClippedRasterIO_window_inside:
  assumes "int_ok (sint nXOff + sint nXSize)" "int_ok (sint nYOff + sint nYSize)"
    and "0 \<le> sint XSize" "0 \<le> sint YSize"
  shows "\<exists>x y w h d.
           ClippedRasterIO XSize YSize GF_Read nXOff nYOff nXSize nYSize nPixelSpace nLineSpace
             = RasterIO x y w h d \<and>
           0 \<le> sint x \<and> 0 \<le> sint y \<and> sint x + sint w \<le> sint XSize \<and> sint y + sint h \<le> sint YSize"
proof (cases "no_clip_needed XSize YSize nXOff nYOff nXSize nYSize")
  case True
  then have "0 \<le> sint nXOff \<and> 0 \<le> sint nYOff \<and> sint nXOff + sint nXSize \<le> sint XSize \<and>
             sint nYOff + sint nYSize \<le> sint YSize"
    using assms(1,2) by (simp add: no_clip_needed_def sint_add_ok)
  with True show ?thesis by (simp add: ClippedRasterIO_def)
next
  case False
  obtain x w d1 where cx: "clip_x XSize nXOff nXSize nPixelSpace 0 = (x, w, d1)"
    by (cases "clip_x XSize nXOff nXSize nPixelSpace 0")
  obtain y h d where cy: "clip_y YSize nYOff nYSize nLineSpace d1 = (y, h, d)"
    by (cases "clip_y YSize nYOff nYSize nLineSpace d1")
  from False cx cy have
    "ClippedRasterIO XSize YSize GF_Read nXOff nYOff nXSize nYSize nPixelSpace nLineSpace
       = RasterIO x y w h d"
    by (simp add: ClippedRasterIO_def)
  with clip_x_inside [OF assms(1,3) cx] clip_y_inside [OF assms(2,4) cy] show ?thesis by simp
qed

theorem ClippedRasterIO_window_inside_witness:
  "int_ok (sint (- 10 :: cint) + sint (50 :: cint)) \<and> int_ok (sint (70 :: cint) + sint (30 :: cint)) \<and>
   0 \<le> sint (100 :: cint) \<and> 0 \<le> sint (80 :: cint) \<and>
   ClippedRasterIO 100 80 GF_Read (- 10) 70 50 30 1 100 = RasterIO 0 70 40 10 (- 10) \<and>
   (\<exists>x y w h d.
      ClippedRasterIO 100 80 GF_Read (- 10) 70 50 30 1 100 = RasterIO x y w h d \<and>
      0 \<le> sint x \<and> 0 \<le> sint y \<and> sint x + sint w \<le> sint (100 :: cint) \<and>
      sint y + sint h \<le> sint (80 :: cint))"
proof -
  have h1: "int_ok (sint (- 10 :: cint) + sint (50 :: cint))" by (simp add: int_ok_def)
  have h2: "int_ok (sint (70 :: cint) + sint (30 :: cint))" by (simp add: int_ok_def)
  have h3: "0 \<le> sint (100 :: cint)" by simp
  have h4: "0 \<le> sint (80 :: cint)" by simp
  have v: "ClippedRasterIO 100 80 GF_Read (- 10) 70 50 30 1 100 = RasterIO 0 70 40 10 (- 10)"
    by (simp add: ClippedRasterIO_def no_clip_needed_def clip_x_def clip_y_def clip_test_def
        clip_end_def)
  from h1 h2 h3 h4 v
    ClippedRasterIO_window_inside [OF h1 h2 h3 h4, where nPixelSpace = 1 and nLineSpace = 100]
  show ?thesis by simp
qed

section \<open>Properties of the buffer operations\<close>

lemma length_store [simp]: "length (store buf off bs) = length buf"
  by (induction bs arbitrary: buf off) simp_all

lemma nth_store:
  "i < length buf \<Longrightarrow>
     store buf off bs ! i = (if off \<le> i \<and> i < off + length bs then bs ! (i - off) else buf ! i)"
proof (induction bs arbitrary: buf off)
  case Nil
  then show ?case by auto
next
  case (Cons b bs)
  then show ?case
    by (auto simp add: nth_list_update nth_Cons')
qed

lemma take_store_below: "n \<le> off \<Longrightarrow> take n (store buf off bs) = take n buf"
  by (rule nth_equalityI) (simp_all add: nth_store)

lemma load_store_below: "n \<le> off \<Longrightarrow> load (store buf off bs) 0 n = load buf 0 n"
  by (simp add: load_def take_store_below)

lemma load_store_same:
  "off + length bs \<le> length buf \<Longrightarrow> load (store buf off bs) off (length bs) = bs"
  unfolding load_def
  by (rule nth_equalityI) (simp_all add: nth_store)

lemma drop_store_above:
  "off + length bs \<le> k \<Longrightarrow> drop k (store buf off bs) = drop k buf"
  by (rule nth_equalityI) (simp_all add: nth_store)

lemma load_store_disjoint:
  assumes "p + n \<le> off \<or> off + length bs \<le> p"
  shows "load (store buf off bs) p n = load buf p n"
  unfolding load_def
proof (rule nth_equalityI)
  show "length (take n (drop p (store buf off bs))) = length (take n (drop p buf))" by simp
next
  fix i assume "i < length (take n (drop p (store buf off bs)))"
  then have i: "i < n" "p + i < length buf" by auto
  with assms have "store buf off bs ! (p + i) = buf ! (p + i)"
    by (auto simp add: nth_store)
  with i show "take n (drop p (store buf off bs)) ! i = take n (drop p buf) ! i" by simp
qed

lemma length_load: "off + n \<le> length buf \<Longrightarrow> length (load buf off n) = n"
  by (simp add: load_def)

section \<open>Properties of DeflateBlock\<close>

text \<open>The test \<open>extrasize < src.size + 64\<close> on \<open>size_t\<close>, where the sum does not wrap.\<close>

lemma unat_plus_64: "unat (s :: size_t) + 64 < 2 ^ 64 \<Longrightarrow> unat (s + 64) = unat s + 64"
  by (simp add: unat_word_ariths)

lemma temp_test_iff:
  assumes "unat (s :: size_t) + 64 < 2 ^ 64"
  shows "(e < s + 64) \<longleftrightarrow> unat e < unat s + 64"
  using assms by (simp add: word_less_nat_alt unat_plus_64)

lemma in_place_test:
  assumes "unat (s :: size_t) + 64 \<le> unat (e :: size_t)"
  shows "\<not> e < s + 64"
proof -
  have "unat e < 2 ^ 64" using unsigned_less [of e, where 'a = nat] by simp
  with assms have "unat s + 64 < 2 ^ 64" by simp
  from temp_test_iff [OF this] assms show ?thesis by simp
qed

lemma unat_of_nat_length_take:
  "unat (of_nat (length (take (unat (c :: size_t)) xs)) :: size_t) = length (take (unat c) xs)"
  by (rule le_unat_uoi [of _ c]) simp

text \<open>\<open>DeflateBlock\<close> returns null exactly on the two failures.\<close>

lemma DeflateBlock_null_iff:
  "ret_ptr (DeflateBlock E src extrasize flags) = None \<longleftrightarrow> deflate_failure E src extrasize flags"
  by (auto simp add: DeflateBlock_def deflate_failure_def deflate_capacity_def Let_def
      split: option.splits prod.splits bool.splits)

lemma DeflateBlock_null_unchanged:
  assumes "ret_ptr (DeflateBlock E src extrasize flags) = None"
  shows "load (buffer (src_after (DeflateBlock E src extrasize flags))) 0 (unat (size_b src))
           = load (buffer src) 0 (unat (size_b src)) \<and>
         size_b (src_after (DeflateBlock E src extrasize flags)) = size_b src"
  using assms
  by (auto simp add: DeflateBlock_def deflate_input_def Let_def load_store_below
      split: option.splits prod.splits bool.splits if_splits)

text \<open>
  Claim C9.  When \<open>DeflateBlock\<close> fails, because the temporary buffer cannot be
  allocated or because the compression fails, it returns null, the first \<open>src.size\<close> bytes of
  the source buffer are what they were, and \<open>src.size\<close> is unchanged.  (A failed
  compression into the trailing free space may have written there.)
\<close>

theorem DeflateBlock_failure_keeps_input:
  assumes "deflate_failure E src extrasize flags"
  shows "ret_ptr (DeflateBlock E src extrasize flags) = None \<and>
         load (buffer (src_after (DeflateBlock E src extrasize flags))) 0 (unat (size_b src))
           = load (buffer src) 0 (unat (size_b src)) \<and>
         size_b (src_after (DeflateBlock E src extrasize flags)) = size_b src"
  using assms DeflateBlock_null_iff [of E src extrasize flags]
    DeflateBlock_null_unchanged [of E src extrasize flags] by simp

theorem DeflateBlock_failure_keeps_input_witness:
  "deflate_failure failing_zlib_env \<lparr>buffer = 9 # replicate 65 0, size_b = 1\<rparr> 65 0 \<and>
   ret_ptr (DeflateBlock failing_zlib_env \<lparr>buffer = 9 # replicate 65 0, size_b = 1\<rparr> 65 0) = None \<and>
   buffer (src_after (DeflateBlock failing_zlib_env \<lparr>buffer = 9 # replicate 65 0, size_b = 1\<rparr> 65 0))
     = [9, 7, 7] @ replicate 63 0 \<and>
   load (buffer (src_after (DeflateBlock failing_zlib_env \<lparr>buffer = 9 # replicate 65 0, size_b = 1\<rparr> 65 0))) 0 1
     = [9] \<and>
   size_b (src_after (DeflateBlock failing_zlib_env \<lparr>buffer = 9 # replicate 65 0, size_b = 1\<rparr> 65 0)) = 1"
proof -
  have h: "deflate_failure failing_zlib_env \<lparr>buffer = 9 # replicate 65 0, size_b = 1\<rparr> 65 0"
    by (simp add: deflate_failure_def deflate_capacity_def failing_zlib_env_def raw_env_def)
  have b: "buffer (src_after (DeflateBlock failing_zlib_env \<lparr>buffer = 9 # replicate 65 0, size_b = 1\<rparr> 65 0))
     = [9, 7, 7] @ replicate 63 0"
    by code_simp
  show ?thesis
    using h b DeflateBlock_failure_keeps_input [OF h] by (simp add: load_def)
qed

text \<open>
  Claim C2.  When the trailing free space \<open>extrasize\<close> is at least the input size plus 64
  bytes, \<open>DeflateBlock\<close> asks nothing of the allocator and compresses into the free space
  right after the input (on success it returns that address and the compressed size).
  Otherwise it asks for a temporary buffer of the input size plus 64 bytes, compresses
  into it, and, when both succeed, copies the compressed bytes over the start of the
  source buffer and returns the source buffer.  The input size plus 64 is assumed to fit
  \<open>size_t\<close>.
\<close>

theorem DeflateBlock_growth_policy:
  assumes nowrap: "unat (size_b src) + 64 < 2 ^ 64"
  shows "(unat (size_b src) + 64 \<le> unat extrasize \<longrightarrow>
            mallocs (DeflateBlock E src extrasize flags) = [] \<and>
            buffer (src_after (DeflateBlock E src extrasize flags))
              = store (buffer src) (unat (size_b src))
                  (take (unat extrasize) (snd (ZPack E (deflate_input src) (unat extrasize) flags))) \<and>
            (fst (ZPack E (deflate_input src) (unat extrasize) flags) \<longrightarrow>
               ret_ptr (DeflateBlock E src extrasize flags) = Some (unat (size_b src)) \<and>
               unat (size_b (src_after (DeflateBlock E src extrasize flags)))
                 = length (take (unat extrasize) (snd (ZPack E (deflate_input src) (unat extrasize) flags)))))
       \<and> (unat extrasize < unat (size_b src) + 64 \<longrightarrow>
            mallocs (DeflateBlock E src extrasize flags) = [unat (size_b src) + 64] \<and>
            (CPLMalloc E (unat (size_b src) + 64) \<noteq> None \<and>
             fst (ZPack E (deflate_input src) (unat (size_b src) + 64) flags) \<longrightarrow>
               ret_ptr (DeflateBlock E src extrasize flags) = Some 0 \<and>
               buffer (src_after (DeflateBlock E src extrasize flags))
                 = store (buffer src) 0
                     (take (unat (size_b src) + 64)
                        (snd (ZPack E (deflate_input src) (unat (size_b src) + 64) flags))) \<and>
               unat (size_b (src_after (DeflateBlock E src extrasize flags)))
                 = length (take (unat (size_b src) + 64)
                        (snd (ZPack E (deflate_input src) (unat (size_b src) + 64) flags)))))"
proof (intro conjI impI)
  assume a: "unat (size_b src) + 64 \<le> unat extrasize"
  note t = in_place_test [OF a]
  from t show "mallocs (DeflateBlock E src extrasize flags) = []"
    by (simp add: DeflateBlock_def Let_def split: prod.splits bool.splits)
  from t show "buffer (src_after (DeflateBlock E src extrasize flags))
              = store (buffer src) (unat (size_b src))
                  (take (unat extrasize) (snd (ZPack E (deflate_input src) (unat extrasize) flags)))"
    by (simp add: DeflateBlock_def Let_def split: prod.splits bool.splits)
  assume ok: "fst (ZPack E (deflate_input src) (unat extrasize) flags)"
  from t ok show "ret_ptr (DeflateBlock E src extrasize flags) = Some (unat (size_b src))"
    by (auto simp add: DeflateBlock_def Let_def split: prod.splits bool.splits)
  from t ok show "unat (size_b (src_after (DeflateBlock E src extrasize flags)))
                 = length (take (unat extrasize) (snd (ZPack E (deflate_input src) (unat extrasize) flags)))"
    using unat_of_nat_length_take [of extrasize]
    by (auto simp add: DeflateBlock_def Let_def split: prod.splits bool.splits)
next
  assume b: "unat extrasize < unat (size_b src) + 64"
  with temp_test_iff [OF nowrap] have t: "extrasize < size_b src + 64" by simp
  note u = unat_plus_64 [OF nowrap]
  from t show "mallocs (DeflateBlock E src extrasize flags) = [unat (size_b src) + 64]"
    by (simp add: DeflateBlock_def Let_def u split: option.splits prod.splits bool.splits)
  assume c: "CPLMalloc E (unat (size_b src) + 64) \<noteq> None \<and>
             fst (ZPack E (deflate_input src) (unat (size_b src) + 64) flags)"
  from t c show "ret_ptr (DeflateBlock E src extrasize flags) = Some 0"
    by (auto simp add: DeflateBlock_def Let_def u split: option.splits prod.splits bool.splits)
  from t c show "buffer (src_after (DeflateBlock E src extrasize flags))
                 = store (buffer src) 0
                     (take (unat (size_b src) + 64)
                        (snd (ZPack E (deflate_input src) (unat (size_b src) + 64) flags)))"
    by (auto simp add: DeflateBlock_def Let_def u split: option.splits prod.splits bool.splits)
  from t c show "unat (size_b (src_after (DeflateBlock E src extrasize flags)))
                 = length (take (unat (size_b src) + 64)
                        (snd (ZPack E (deflate_input src) (unat (size_b src) + 64) flags)))"
    using unat_of_nat_length_take [of "size_b src + 64"]
    by (auto simp add: DeflateBlock_def Let_def u split: option.splits prod.splits bool.splits)
qed

theorem DeflateBlock_growth_policy_witness:
  "unat (2 :: size_t) + 64 < 2 ^ 64 \<and>
   unat (2 :: size_t) + 64 \<le> unat (66 :: size_t) \<and>
   DeflateBlock raw_env \<lparr>buffer = 9 # 8 # replicate 66 0, size_b = 2\<rparr> 66 0
     = \<lparr>ret_ptr = Some 2, src_after = \<lparr>buffer = [9, 8, 9, 8] @ replicate 64 0, size_b = 2\<rparr>,
        mallocs = []\<rparr> \<and>
   unat (3 :: size_t) < unat (2 :: size_t) + 64 \<and>
   DeflateBlock raw_env \<lparr>buffer = [9, 8, 0, 0, 0], size_b = 2\<rparr> 3 0
     = \<lparr>ret_ptr = Some 0, src_after = \<lparr>buffer = [9, 8, 0, 0, 0], size_b = 2\<rparr>, mallocs = [66]\<rparr>"
proof -
  have n: "unat (2 :: size_t) + 64 < 2 ^ 64" by simp
  have c1: "DeflateBlock raw_env \<lparr>buffer = 9 # 8 # replicate 66 0, size_b = 2\<rparr> 66 0
     = \<lparr>ret_ptr = Some 2, src_after = \<lparr>buffer = [9, 8, 9, 8] @ replicate 64 0, size_b = 2\<rparr>,
        mallocs = []\<rparr>"
    by code_simp
  have c2: "DeflateBlock raw_env \<lparr>buffer = [9, 8, 0, 0, 0], size_b = 2\<rparr> 3 0
     = \<lparr>ret_ptr = Some 0, src_after = \<lparr>buffer = [9, 8, 0, 0, 0], size_b = 2\<rparr>, mallocs = [66]\<rparr>"
    by code_simp
  have p1: "size_b \<lparr>buffer = 9 # 8 # replicate 66 0, size_b = 2\<rparr> = 2"
    and p2: "size_b \<lparr>buffer = [9, 8, 0, 0, 0], size_b = 2\<rparr> = 2" by simp_all
  note w1 = DeflateBlock_growth_policy [where src = "\<lparr>buffer = 9 # 8 # replicate 66 0, size_b = 2\<rparr>"
      and extrasize = 66 and E = raw_env and flags = 0, unfolded p1, OF n]
  note w2 = DeflateBlock_growth_policy [where src = "\<lparr>buffer = [9, 8, 0, 0, 0], size_b = 2\<rparr>"
      and extrasize = 3 and E = raw_env and flags = 0, unfolded p2, OF n]
  from c1 c2 w1 w2 show ?thesis by simp
qed

section \<open>Properties of IWriteBlock: empty tiles of separate bands\<close>







section \<open>Properties of FillBlock and of reads of empty tiles\<close>

lemma store_eq:
  "off + length bs \<le> length buf \<Longrightarrow> store buf off bs = take off buf @ bs @ drop (off + length bs) buf"
  by (rule nth_equalityI) (auto simp add: nth_store nth_append)

lemma fill_loop_eq:
  "length ndv = w \<Longrightarrow> off + count * w \<le> length b \<Longrightarrow>
     fill_loop w b off count ndv = take off b @ concat (replicate count ndv) @ drop (off + count * w) b"
proof (induction count arbitrary: b off)
  case 0
  then show ?case by simp
next
  case (Suc count)
  have l: "off + length ndv \<le> length b" using Suc.prems by simp
  have "fill_loop w (store b off ndv) (off + w) count ndv
          = take (off + w) (store b off ndv) @ concat (replicate count ndv)
              @ drop (off + w + count * w) (store b off ndv)"
    using Suc.prems by (intro Suc.IH) simp_all
  also have "take (off + w) (store b off ndv) = take off b @ ndv"
    using l Suc.prems(1) by (simp add: store_eq)
  also have "drop (off + w + count * w) (store b off ndv) = drop (off + Suc count * w) b"
    using Suc.prems(1) by (simp add: drop_store_above add.assoc add.commute)
  finally show ?case by simp
qed

lemma memset_load: "n \<le> length buf \<Longrightarrow> load (memset buf c n) 0 n = replicate n (word_of_int c)"
  using load_store_same [of 0 "replicate n (word_of_int c)" buf] by (simp add: memset_def)

lemma buff_fill_load:
  assumes "length ndv = w" "0 < w" "w dvd count" "count \<le> length b"
  shows "fst (buff_fill w b count ndv) = CE_None \<and>
         load (snd (buff_fill w b count ndv)) 0 count = concat (replicate (count div w) ndv)"
proof -
  have c: "count div w * w = count" using assms(3) by simp
  have "fill_loop w b 0 (count div w) ndv = concat (replicate (count div w) ndv) @ drop count b"
    using fill_loop_eq [of ndv w 0 "count div w" b] assms c by simp
  moreover have "length (concat (replicate (count div w) ndv)) = count"
    using assms(1) c by (simp add: length_concat sum_list_replicate)
  ultimately show ?thesis by (simp add: buff_fill_def load_def)
qed

lemma FillBlock_fills:
  assumes "\<not> hasNoData (img b) \<or> eDataType b \<in> fill_types"
    and "blockSizeBytes b \<le> length buf"
    and "(GDALGetDataTypeSize (eDataType b) div 8) dvd blockSizeBytes b"
    and "length (pixel_of_double E (eDataType b) (NoDataValue (img b))) = GDALGetDataTypeSize (eDataType b) div 8"
  shows "fst (FillBlock E b buf) = CE_None \<and>
         load (snd (FillBlock E b buf)) 0 (blockSizeBytes b) = fill_pattern E b"
proof (cases "\<not> hasNoData (img b) \<or> eDataType b = GDT_Byte")
  case True
  then show ?thesis
    using assms(2) memset_load [of "blockSizeBytes b" buf]
    by (auto simp add: FillBlock_def fill_pattern_def Let_def double_to_int_def)
next
  case False
  then have t: "eDataType b \<in> fill_types - {GDT_Byte}" and h: "hasNoData (img b)"
    using assms(1) by auto
  have w: "0 < GDALGetDataTypeSize (eDataType b) div 8"
    using t by (auto simp add: fill_types_def)
  note bf = buff_fill_load [OF assms(4) w assms(3) assms(2)]
  from t show ?thesis
    using False h bf
    by (auto simp add: FillBlock_def fill_pattern_def Let_def fill_types_def)
qed

text \<open>
  Claim C4, amended.  When the index entry of the tile has size 0 and no fetch is made
  (nonzero offset, update mode, no source, or read-only index mode), \<open>IReadBlock\<close> returns
  \<open>CE_None\<close> and a block filled entirely with 0 when no NoData value is declared, or with
  the declared NoData value when the data type is Byte, UInt16, Int16, UInt32, Int32,
  Float32 or Float64.  The block is \<open>blockSizeBytes\<close> long, a whole number of pixels.
\<close>

theorem IReadBlock_empty_tile_filled:
  assumes "ReadTileIdx E ds \<lparr>sz_x = xblk, sz_y = yblk, sz_z = 0,
               sz_c = m_band b sdiv sz_c (pagesize (img b)), sz_l = m_l b\<rparr> (img b) = Some tinfo"
    and "size_i tinfo = 0"
    and "offset tinfo \<noteq> 0 \<or> eAccess ds = GA_Update \<or> source ds = [] \<or> IdxMode ds = GF_Read"
    and "\<not> hasNoData (img b) \<or> eDataType b \<in> fill_types"
    and "blockSizeBytes b \<le> length buf"
    and "(GDALGetDataTypeSize (eDataType b) div 8) dvd blockSizeBytes b"
    and "length (pixel_of_double E (eDataType b) (NoDataValue (img b))) = GDALGetDataTypeSize (eDataType b) div 8"
  shows "\<exists>r. IReadBlock E ds b xblk yblk buf = Returned r \<and> rd_err r = CE_None \<and>
             load (rd_buffer r) 0 (blockSizeBytes b) = fill_pattern E b"
proof -
  note f = FillBlock_fills [OF assms(4-7)]
  obtain err buf' where fb: "FillBlock E b buf = (err, buf')" by (cases "FillBlock E b buf")
  with f have "err = CE_None" "load buf' 0 (blockSizeBytes b) = fill_pattern E b" by simp_all
  moreover have "IReadBlock E ds b xblk yblk buf =
      Returned \<lparr>rd_err = err, rd_buffer = buf', rd_pbuffer = pbuffer ds, rd_blocks = [], rd_log = []\<rparr>"
    using assms(1-3) fb by (auto simp add: IReadBlock_def Let_def)
  ultimately show ?thesis by simp
qed

theorem IReadBlock_empty_tile_filled_witness:
  "ReadTileIdx raw_env fresh_ds \<lparr>sz_x = 0, sz_y = 0, sz_z = 0,
       sz_c = m_band int16_band sdiv sz_c (pagesize (img int16_band)), sz_l = m_l int16_band\<rparr>
     (img int16_band) = Some \<lparr>offset = 0, size_i = 0\<rparr> \<and>
   eAccess fresh_ds = GA_Update \<and> eDataType int16_band \<in> fill_types \<and>
   blockSizeBytes int16_band \<le> length [9, 9, 9, 9 :: byte] \<and>
   (GDALGetDataTypeSize (eDataType int16_band) div 8) dvd blockSizeBytes int16_band \<and>
   length (pixel_of_double raw_env (eDataType int16_band) (NoDataValue (img int16_band)))
     = GDALGetDataTypeSize (eDataType int16_band) div 8 \<and>
   fill_pattern raw_env int16_band = [1, 0, 1, 0] \<and>
   (\<exists>r. IReadBlock raw_env fresh_ds int16_band 0 0 [9, 9, 9, 9] = Returned r \<and> rd_err r = CE_None \<and>
        load (rd_buffer r) 0 (blockSizeBytes int16_band) = fill_pattern raw_env int16_band)"
proof -
  have h1: "ReadTileIdx raw_env fresh_ds \<lparr>sz_x = 0, sz_y = 0, sz_z = 0,
       sz_c = m_band int16_band sdiv sz_c (pagesize (img int16_band)), sz_l = m_l int16_band\<rparr>
     (img int16_band) = Some \<lparr>offset = 0, size_i = 0\<rparr>"
    by code_simp
  have h2: "size_i \<lparr>offset = 0, size_i = 0\<rparr> = 0" by simp
  have h3a: "eAccess fresh_ds = GA_Update" by code_simp
  then have h3: "offset \<lparr>offset = 0, size_i = 0\<rparr> \<noteq> 0 \<or> eAccess fresh_ds = GA_Update \<or> source fresh_ds = []
      \<or> IdxMode fresh_ds = GF_Read" by simp
  have h4a: "eDataType int16_band \<in> fill_types" by (simp add: int16_band_def fill_types_def)
  then have h4: "\<not> hasNoData (img int16_band) \<or> eDataType int16_band \<in> fill_types" by simp
  have h5: "blockSizeBytes int16_band \<le> length [9, 9, 9, 9 :: byte]" by code_simp
  have h6: "(GDALGetDataTypeSize (eDataType int16_band) div 8) dvd blockSizeBytes int16_band"
    by (simp add: int16_band_def)
  have h7: "length (pixel_of_double raw_env (eDataType int16_band) (NoDataValue (img int16_band)))
     = GDALGetDataTypeSize (eDataType int16_band) div 8" by code_simp
  have p: "fill_pattern raw_env int16_band = [1, 0, 1, 0]" by code_simp
  from h1 h3a h4a h5 h6 h7 p IReadBlock_empty_tile_filled [OF h1 h2 h3 h4 h5 h6 h7]
  show ?thesis by simp
qed

text \<open>
  Claim C4 as stated fails for the other data types: with a declared NoData value and a
  complex data type \<open>FillBlock\<close> has no fill, returns \<open>CE_Failure\<close> and leaves the buffer
  as it was.
\<close>

theorem IReadBlock_complex_tile_not_filled:
  "ReadTileIdx raw_env fresh_ds \<lparr>sz_x = 0, sz_y = 0, sz_z = 0,
       sz_c = m_band cint16_band sdiv sz_c (pagesize (img cint16_band)), sz_l = m_l cint16_band\<rparr>
     (img cint16_band) = Some \<lparr>offset = 0, size_i = 0\<rparr> \<and>
   eAccess fresh_ds = GA_Update \<and> source fresh_ds = [] \<and>
   hasNoData (img cint16_band) \<and>
   IReadBlock raw_env fresh_ds cint16_band 0 0 [9, 9, 9, 9]
     = Returned \<lparr>rd_err = CE_Failure, rd_buffer = [9, 9, 9, 9], rd_pbuffer = replicate 8 0,
                 rd_blocks = [], rd_log = []\<rparr>"
  by code_simp

section \<open>Properties of IReadBlock: the deflate stage\<close>

text \<open>
  The strided copy of the read path writes pixel \<open>s + k * stride\<close> of the page to pixel
  \<open>d + k\<close> of the band's block.
\<close>

lemma length_cpy_stride_in [simp]: "length (cpy_stride_in w dst d src s count stride) = length dst"
  by (induction count arbitrary: dst d s) simp_all

lemma cpy_stride_in_below:
  assumes "e < d"
    and "\<forall>k < count. (s + k * stride + 1) * w \<le> length src"
  shows "load (cpy_stride_in w dst d src s count stride) (e * w) w = load dst (e * w) w"
  using assms
proof (induction count arbitrary: dst d s)
  case 0
  then show ?case by simp
next
  case (Suc count)
  let ?px = "load src (s * w) w"
  have "(s + 1) * w \<le> length src" using Suc.prems(2) [rule_format, of 0] by simp
  then have lp: "length ?px = w" by (intro length_load) (simp add: algebra_simps)
  have b: "\<forall>k < count. (s + stride + k * stride + 1) * w \<le> length src"
  proof (intro allI impI)
    fix k assume "k < count"
    then have "(s + Suc k * stride + 1) * w \<le> length src"
      using Suc.prems(2) [rule_format, of "Suc k"] by simp
    then show "(s + stride + k * stride + 1) * w \<le> length src" by (simp add: algebra_simps)
  qed
  have "e < Suc d" using Suc.prems(1) by simp
  from Suc.IH [OF this b]
  have "load (cpy_stride_in w dst d src s (Suc count) stride) (e * w) w
          = load (store dst (d * w) ?px) (e * w) w" by simp
  also have "\<dots> = load dst (e * w) w"
  proof -
    have "Suc e * w \<le> d * w" using Suc.prems(1) by (intro mult_le_mono1) simp
    then have "e * w + w \<le> d * w" by simp
    then show ?thesis by (simp add: load_store_disjoint)
  qed
  finally show ?case .
qed

lemma cpy_stride_in_hit:
  assumes "k < count"
    and "(d + count) * w \<le> length dst"
    and "\<forall>k < count. (s + k * stride + 1) * w \<le> length src"
  shows "load (cpy_stride_in w dst d src s count stride) ((d + k) * w) w
           = load src ((s + k * stride) * w) w"
  using assms
proof (induction count arbitrary: dst d s k)
  case 0
  then show ?case by simp
next
  case (Suc count)
  let ?px = "load src (s * w) w"
  have "(s + 1) * w \<le> length src" using Suc.prems(3) [rule_format, of 0] by simp
  then have lp: "length ?px = w" by (intro length_load) (simp add: algebra_simps)
  have b: "\<forall>k < count. (s + stride + k * stride + 1) * w \<le> length src"
  proof (intro allI impI)
    fix k assume "k < count"
    then have "(s + Suc k * stride + 1) * w \<le> length src"
      using Suc.prems(3) [rule_format, of "Suc k"] by simp
    then show "(s + stride + k * stride + 1) * w \<le> length src" by (simp add: algebra_simps)
  qed
  have dl: "d * w + w \<le> length dst"
  proof -
    have "(d + 1) * w \<le> (d + Suc count) * w" by (intro mult_le_mono1) simp
    also note Suc.prems(2)
    finally show ?thesis by (simp add: algebra_simps)
  qed
  show ?case
  proof (cases k)
    case 0
    have "load (cpy_stride_in w dst d src s (Suc count) stride) (d * w) w
            = load (store dst (d * w) ?px) (d * w) w"
      using cpy_stride_in_below [of d "Suc d", OF _ b] by simp
    also have "\<dots> = ?px"
      using load_store_same [of "d * w" ?px dst] lp dl by simp
    finally show ?thesis using 0 by simp
  next
    case (Suc k')
    then have k': "k' < count" using Suc.prems(1) by simp
    have l: "(Suc d + count) * w \<le> length (store dst (d * w) ?px)" using Suc.prems(2) by simp
    from Suc.IH [OF k' l b] show ?thesis using Suc by (simp add: algebra_simps)
  qed
qed

lemma length_swab_words [simp]: "length (swab_words w b n) = length b"
  by (induction n arbitrary: b) (simp_all add: swab_def min_def)

lemma length_decoded_page [simp]: "length (decoded_page E b mem data) = length mem"
  by (simp add: decoded_page_def swab_buff_def Let_def)

text \<open>
  The loop of \<open>RB\<close> changes the caller's buffer in the round of the band being read
  only, and that round takes the band out of the page.
\<close>

lemma RB_loop_buffer:
  assumes "distinct bands"
  shows "fst (RB_loop E ds b xblk yblk st bands)
           = (if nat (m_band b) \<in> set bands \<and> 0 \<le> m_band b
              then RB_band E ds b xblk yblk (nat (m_band b)) (fst st) else fst st)"
  using assms
proof (induction bands arbitrary: st)
  case Nil
  then show ?case by simp
next
  case (Cons i bands)
  show ?case
  proof (cases "int i = m_band b")
    case True
    then have m: "nat (m_band b) = i" "0 \<le> m_band b" by simp_all
    with Cons.prems have "nat (m_band b) \<notin> set bands" by simp
    with Cons.IH [of "(RB_band E ds b xblk yblk i (fst st), snd st)"] Cons.prems True m
    show ?thesis by simp
  next
    case False
    then have "\<not> (nat (m_band b) = i \<and> 0 \<le> m_band b)" by auto
    with Cons.IH [of "(fst st, snd st @ [(i, RB_band E ds b xblk yblk i (GetLockedBlockRef E xblk yblk i))])"]
      Cons.prems False
    show ?thesis by auto
  qed
qed

lemma RB_band_holds_band:
  assumes w: "GDALGetDataTypeSize (eDataType b) div 8 \<in> {1, 2, 4, 8}"
    and m: "m < nat (sz_c (pagesize (img b)))"
    and lb: "blockSizeBytes b \<le> length buf"
    and lp: "blockSizeBytes b * nat (sz_c (pagesize (img b))) \<le> length (pbuffer ds)"
  shows "page_holds_band (GDALGetDataTypeSize (eDataType b) div 8) (nat (sz_c (pagesize (img b))))
           (blockSizeBytes b div (GDALGetDataTypeSize (eDataType b) div 8))
           (pbuffer ds) m (RB_band E ds b xblk yblk m buf)"
proof -
  let ?w = "GDALGetDataTypeSize (eDataType b) div 8"
  let ?N = "nat (sz_c (pagesize (img b)))"
  let ?c = "blockSizeBytes b div ?w"
  have rb: "RB_band E ds b xblk yblk m buf = cpy_stride_in ?w buf 0 (pbuffer ds) m ?c ?N"
    using w by (auto simp add: RB_band_def Let_def)
  have cw: "?c * ?w \<le> blockSizeBytes b" by simp
  also note lb
  finally have d: "(0 + ?c) * ?w \<le> length buf" by simp
  have "?c * ?w * ?N \<le> blockSizeBytes b * ?N" using cw by (rule mult_le_mono1)
  moreover have "?c * ?N * ?w = ?c * ?w * ?N" by (simp add: ac_simps)
  ultimately have page: "?c * ?N * ?w \<le> length (pbuffer ds)" using lp by linarith
  have s: "\<forall>k < ?c. (m + k * ?N + 1) * ?w \<le> length (pbuffer ds)"
  proof (intro allI impI)
    fix k assume k: "k < ?c"
    have "m + k * ?N + 1 \<le> Suc k * ?N" using m by simp
    also have "\<dots> \<le> ?c * ?N" using k by (intro mult_le_mono1) simp
    finally have "(m + k * ?N + 1) * ?w \<le> ?c * ?N * ?w" by (rule mult_le_mono1)
    with page show "(m + k * ?N + 1) * ?w \<le> length (pbuffer ds)" by simp
  qed
  show ?thesis
    unfolding page_holds_band_def rb
  proof (intro allI impI)
    fix k assume k: "k < ?c"
    from cpy_stride_in_hit [OF k d s]
    show "load (pbuffer ds) ((m + k * ?N) * ?w) ?w
            = load (cpy_stride_in ?w buf 0 (pbuffer ds) m ?c ?N) (k * ?w) ?w" by simp
  qed
qed

text \<open>
  Claim C6.  A read of a stored tile with the deflate stage enabled, in which \<open>ZUnPack\<close>
  fails on the stored bytes: \<open>IReadBlock\<close> logs the warning and runs \<open>Decompress\<close> on the
  stored bytes as they are.  The error code of the read is the one of \<open>Decompress\<close> on
  those bytes, not a failure of the deflate stage.  For separate bands the caller's
  buffer receives the decoded page; for interleaved bands the page buffer of the dataset
  receives it, the caller's buffer is left alone if the decodec fails, and is the band
  taken out of the page if it succeeds.
\<close>

theorem IReadBlock_inflate_failure_falls_through:
  assumes "ReadTileIdx E ds \<lparr>sz_x = xblk, sz_y = yblk, sz_z = 0,
               sz_c = m_band b sdiv sz_c (pagesize (img b)), sz_l = m_l b\<rparr> (img b) = Some tinfo"
    and "size_i tinfo \<noteq> 0"
    and "DataFP ds = Some file"
    and "unat (offset tinfo) + unat (size_i tinfo) \<le> length file"
    and "deflate b"
    and "\<not> fst (ZUnPack E (load file (unat (offset tinfo)) (unat (size_i tinfo)))
                 (unat (pageSizeBytes (img b) + 1440)) (deflate_flags b))"
  shows "\<exists>r. IReadBlock E ds b xblk yblk buf = Returned r \<and>
           rd_log r = [(CE_Warning, ''Can't inflate page!'')] \<and>
           rd_err r = fst (Decompress E (load file (unat (offset tinfo)) (unat (size_i tinfo)))
                             (unat (pageSizeBytes (img b)))) \<and>
           (sz_c (pagesize (img b)) = 1 \<longrightarrow>
              rd_buffer r
                = decoded_page E b buf (load file (unat (offset tinfo)) (unat (size_i tinfo)))) \<and>
           (sz_c (pagesize (img b)) \<noteq> 1 \<longrightarrow>
              rd_pbuffer r
                = decoded_page E b (pbuffer ds) (load file (unat (offset tinfo)) (unat (size_i tinfo))) \<and>
              (rd_err r \<noteq> CE_None \<longrightarrow> rd_buffer r = buf) \<and>
              (rd_err r = CE_None \<and>
               GDALGetDataTypeSize (eDataType b) div 8 \<in> {1, 2, 4, 8} \<and>
               0 \<le> m_band b \<and> m_band b < nBands ds \<and> m_band b < sz_c (pagesize (img b)) \<and>
               blockSizeBytes b \<le> length buf \<and>
               blockSizeBytes b * nat (sz_c (pagesize (img b))) \<le> length (pbuffer ds) \<longrightarrow>
                 page_holds_band (GDALGetDataTypeSize (eDataType b) div 8)
                   (nat (sz_c (pagesize (img b))))
                   (blockSizeBytes b div (GDALGetDataTypeSize (eDataType b) div 8))
                   (rd_pbuffer r) (nat (m_band b)) (rd_buffer r)))"
proof -
  let ?data = "load file (unat (offset tinfo)) (unat (size_i tinfo))"
  let ?psb = "unat (pageSizeBytes (img b))"
  let ?dec = "Decompress E ?data ?psb"
  let ?warn = "[(CE_Warning, ''Can't inflate page!'')]"
  let ?r = "decode_stage E ds b xblk yblk buf ?data ?warn"
  have i1: "inflate_stage E b ?data = (?data, ?warn)"
    using assms(5,6) by (auto simp add: inflate_stage_def Let_def split: prod.splits bool.splits)
  have r1: "IReadBlock E ds b xblk yblk buf = Returned ?r"
    using assms(1-4) i1 by (simp add: IReadBlock_def Let_def)
  have lg: "rd_log ?r = ?warn"
    by (simp add: decode_stage_def RB_def Let_def split: prod.splits)
  have er: "rd_err ?r = fst ?dec"
    by (simp add: decode_stage_def RB_def Let_def split: prod.splits)
  have s1: "sz_c (pagesize (img b)) = 1 \<longrightarrow> rd_buffer ?r = decoded_page E b buf ?data"
    by (simp add: decode_stage_def decoded_page_def needs_swab_def Let_def)
  have pb: "sz_c (pagesize (img b)) \<noteq> 1 \<longrightarrow> rd_pbuffer ?r = decoded_page E b (pbuffer ds) ?data"
    by (auto simp add: decode_stage_def decoded_page_def needs_swab_def RB_def Let_def split: prod.splits)
  have fl: "sz_c (pagesize (img b)) \<noteq> 1 \<longrightarrow> rd_err ?r \<noteq> CE_None \<longrightarrow> rd_buffer ?r = buf"
    by (auto simp add: decode_stage_def RB_def Let_def split: prod.splits)
  have il: "sz_c (pagesize (img b)) \<noteq> 1 \<longrightarrow>
              (rd_err ?r = CE_None \<and>
               GDALGetDataTypeSize (eDataType b) div 8 \<in> {1, 2, 4, 8} \<and>
               0 \<le> m_band b \<and> m_band b < nBands ds \<and> m_band b < sz_c (pagesize (img b)) \<and>
               blockSizeBytes b \<le> length buf \<and>
               blockSizeBytes b * nat (sz_c (pagesize (img b))) \<le> length (pbuffer ds) \<longrightarrow>
                 page_holds_band (GDALGetDataTypeSize (eDataType b) div 8)
                   (nat (sz_c (pagesize (img b))))
                   (blockSizeBytes b div (GDALGetDataTypeSize (eDataType b) div 8))
                   (rd_pbuffer ?r) (nat (m_band b)) (rd_buffer ?r))"
  proof (intro impI, elim conjE)
    assume cs: "sz_c (pagesize (img b)) \<noteq> 1"
      and ok: "rd_err ?r = CE_None"
      and w: "GDALGetDataTypeSize (eDataType b) div 8 \<in> {1, 2, 4, 8}"
      and m0: "0 \<le> m_band b" and mn: "m_band b < nBands ds" and mN: "m_band b < sz_c (pagesize (img b))"
      and lb: "blockSizeBytes b \<le> length buf"
      and lp: "blockSizeBytes b * nat (sz_c (pagesize (img b))) \<le> length (pbuffer ds)"
    let ?page = "decoded_page E b (pbuffer ds) ?data"
    let ?ds = "ds\<lparr>pbuffer := ?page\<rparr>"
    from ok er have d0: "fst ?dec = CE_None" by simp
    have p: "rd_pbuffer ?r = ?page" using pb cs by simp
    have mem: "nat (m_band b) \<in> set [0..<nat (nBands ds)]" using m0 mn by simp
    have "rd_buffer ?r = fst (RB_loop E ?ds b xblk yblk (buf, []) [0..<nat (nBands ds)])"
      using cs d0
      by (auto simp add: decode_stage_def decoded_page_def needs_swab_def RB_def Let_def split: prod.splits)
    also have "\<dots> = RB_band E ?ds b xblk yblk (nat (m_band b)) buf"
      using RB_loop_buffer [OF distinct_upt, of E ?ds b xblk yblk "(buf, [])" 0 "nat (nBands ds)"] mem m0
      by simp
    finally have bf: "rd_buffer ?r = RB_band E ?ds b xblk yblk (nat (m_band b)) buf" .
    have m: "nat (m_band b) < nat (sz_c (pagesize (img b)))" using m0 mN by simp
    have lp': "blockSizeBytes b * nat (sz_c (pagesize (img b))) \<le> length (pbuffer ?ds)" using lp by simp
    from RB_band_holds_band [OF w m lb lp', of E xblk yblk]
    show "page_holds_band (GDALGetDataTypeSize (eDataType b) div 8)
                   (nat (sz_c (pagesize (img b))))
                   (blockSizeBytes b div (GDALGetDataTypeSize (eDataType b) div 8))
                   (rd_pbuffer ?r) (nat (m_band b)) (rd_buffer ?r)"
      by (simp add: p bf)
  qed
  from r1 lg er s1 pb fl il show ?thesis by blast
qed

theorem IReadBlock_inflate_failure_falls_through_witness:
  "ReadTileIdx failing_unzip_env stored_two_band_ds \<lparr>sz_x = 0, sz_y = 0, sz_z = 0,
       sz_c = m_band ((swapped_band 2)\<lparr>deflate := True\<rparr>)
                sdiv sz_c (pagesize (img ((swapped_band 2)\<lparr>deflate := True\<rparr>))),
       sz_l = m_l ((swapped_band 2)\<lparr>deflate := True\<rparr>)\<rparr> (img ((swapped_band 2)\<lparr>deflate := True\<rparr>))
     = Some \<lparr>offset = 0, size_i = 8\<rparr> \<and>
   DataFP stored_two_band_ds = Some [1, 2, 5, 6, 3, 4, 7, 8] \<and>
   deflate ((swapped_band 2)\<lparr>deflate := True\<rparr>) \<and>
   \<not> fst (ZUnPack failing_unzip_env [1, 2, 5, 6, 3, 4, 7, 8]
            (unat (pageSizeBytes (img ((swapped_band 2)\<lparr>deflate := True\<rparr>)) + 1440))
            (deflate_flags ((swapped_band 2)\<lparr>deflate := True\<rparr>))) \<and>
   Decompress failing_unzip_env [1, 2, 5, 6, 3, 4, 7, 8] 8 = (CE_None, [1, 2, 5, 6, 3, 4, 7, 8]) \<and>
   IReadBlock failing_unzip_env stored_two_band_ds ((swapped_band 2)\<lparr>deflate := True\<rparr>) 0 0 [9, 9, 9, 9]
     = Returned \<lparr>rd_err = CE_None, rd_buffer = [2, 1, 4, 3],
                 rd_pbuffer = [2, 1, 6, 5, 4, 3, 8, 7, 0, 0, 0, 0, 0, 0, 0, 0],
                 rd_blocks = [(1, [6, 5, 8, 7])], rd_log = [(CE_Warning, ''Can't inflate page!'')]\<rparr> \<and>
   (\<exists>r. IReadBlock failing_unzip_env stored_two_band_ds ((swapped_band 2)\<lparr>deflate := True\<rparr>) 0 0 [9, 9, 9, 9]
          = Returned r \<and>
        rd_log r = [(CE_Warning, ''Can't inflate page!'')] \<and>
        rd_err r = fst (Decompress failing_unzip_env [1, 2, 5, 6, 3, 4, 7, 8] 8) \<and>
        rd_pbuffer r = decoded_page failing_unzip_env ((swapped_band 2)\<lparr>deflate := True\<rparr>)
                         (pbuffer stored_two_band_ds) [1, 2, 5, 6, 3, 4, 7, 8] \<and>
        page_holds_band 2 2 2 (rd_pbuffer r) 0 (rd_buffer r))"
proof -
  let ?b = "(swapped_band 2)\<lparr>deflate := True\<rparr>"
  let ?E = failing_unzip_env
  let ?ds = stored_two_band_ds
  let ?t = "\<lparr>offset = 0, size_i = 8\<rparr> :: ILIdx"
  let ?file = "[1, 2, 5, 6, 3, 4, 7, 8] :: byte list"
  have h1: "ReadTileIdx ?E ?ds \<lparr>sz_x = 0, sz_y = 0, sz_z = 0,
       sz_c = m_band ?b sdiv sz_c (pagesize (img ?b)), sz_l = m_l ?b\<rparr> (img ?b) = Some ?t"
    by code_simp
  have h2: "size_i ?t \<noteq> 0" by simp
  have h3: "DataFP ?ds = Some ?file" by code_simp
  have h4: "unat (offset ?t) + unat (size_i ?t) \<le> length ?file" by simp
  have h5: "deflate ?b" by simp
  have l: "load ?file (unat (offset ?t)) (unat (size_i ?t)) = ?file"
    by (simp add: load_def)
  have h6: "\<not> fst (ZUnPack ?E (load ?file (unat (offset ?t)) (unat (size_i ?t)))
                 (unat (pageSizeBytes (img ?b) + 1440)) (deflate_flags ?b))"
    by (simp add: failing_unzip_env_def)
  have psb: "unat (pageSizeBytes (img ?b)) = 8" by code_simp
  have d: "Decompress ?E ?file 8 = (CE_None, ?file)" by code_simp
  have v: "IReadBlock ?E ?ds ?b 0 0 [9, 9, 9, 9]
     = Returned \<lparr>rd_err = CE_None, rd_buffer = [2, 1, 4, 3],
                 rd_pbuffer = [2, 1, 6, 5, 4, 3, 8, 7, 0, 0, 0, 0, 0, 0, 0, 0],
                 rd_blocks = [(1, [6, 5, 8, 7])], rd_log = [(CE_Warning, ''Can't inflate page!'')]\<rparr>"
    by code_simp
  have c: "sz_c (pagesize (img (swapped_band 2))) = 2"
    "GDALGetDataTypeSize (eDataType (swapped_band 2)) div 8 = 2"
    "m_band (swapped_band 2) = 0" "nBands ?ds = 2" "blockSizeBytes (swapped_band 2) = 4"
    "length (pbuffer ?ds) = 16"
    by code_simp+
  note w = IReadBlock_inflate_failure_falls_through [OF h1 h2 h3 h4 h5 h6, where buf = "[9, 9, 9, 9]",
      unfolded l psb]
  from h1 h3 h6 d v w show ?thesis by (auto simp add: l c load_def)
qed

text \<open>
  The same in a band-separate store: the four stored bytes do not inflate and are decoded
  as they are.
\<close>

lemma separate_read_inflate_failure:
  "IReadBlock failing_zlib_env stored_ds (int16_band\<lparr>deflate := True\<rparr>) 0 0 [9, 9, 9, 9]
     = Returned \<lparr>rd_err = CE_None, rd_buffer = [1, 0, 2, 0], rd_pbuffer = replicate 8 0,
                 rd_blocks = [], rd_log = [(CE_Warning, ''Can't inflate page!'')]\<rparr>"
  by code_simp

text \<open>
  Apart from the warning, the read is the read of the same store with the deflate stage
  switched off.
\<close>

lemma decode_stage_log:
  "(decode_stage E ds b xblk yblk buf data msgs)\<lparr>rd_log := []\<rparr> = decode_stage E ds b xblk yblk buf data []"
  by (simp add: decode_stage_def Let_def split: prod.splits)

lemma RB_loop_without_deflate:
  "RB_loop E ds (b\<lparr>deflate := False\<rparr>) xblk yblk st bands = RB_loop E ds b xblk yblk st bands"
  by (induction bands arbitrary: st) (simp_all add: RB_band_def Let_def)

lemma decode_stage_without_deflate:
  "decode_stage E ds (b\<lparr>deflate := False\<rparr>) xblk yblk buf data msgs
     = decode_stage E ds b xblk yblk buf data msgs"
  by (simp add: decode_stage_def RB_def RB_loop_without_deflate Let_def)

lemma inflate_failure_as_without_deflate:
  assumes "ReadTileIdx E ds \<lparr>sz_x = xblk, sz_y = yblk, sz_z = 0,
               sz_c = m_band b sdiv sz_c (pagesize (img b)), sz_l = m_l b\<rparr> (img b) = Some tinfo"
    and "size_i tinfo \<noteq> 0"
    and "DataFP ds = Some file"
    and "unat (offset tinfo) + unat (size_i tinfo) \<le> length file"
    and "deflate b"
    and "\<not> fst (ZUnPack E (load file (unat (offset tinfo)) (unat (size_i tinfo)))
                 (unat (pageSizeBytes (img b) + 1440)) (deflate_flags b))"
  shows "\<exists>r. IReadBlock E ds b xblk yblk buf = Returned r \<and>
             IReadBlock E ds (b\<lparr>deflate := False\<rparr>) xblk yblk buf = Returned (r\<lparr>rd_log := []\<rparr>)"
proof -
  let ?data = "load file (unat (offset tinfo)) (unat (size_i tinfo))"
  have i1: "inflate_stage E b ?data = (?data, [(CE_Warning, ''Can't inflate page!'')])"
    using assms(5,6) by (auto simp add: inflate_stage_def Let_def split: prod.splits bool.splits)
  have i2: "inflate_stage E (b\<lparr>deflate := False\<rparr>) ?data = (?data, [])"
    by (simp add: inflate_stage_def)
  have r1: "IReadBlock E ds b xblk yblk buf
              = Returned (decode_stage E ds b xblk yblk buf ?data [(CE_Warning, ''Can't inflate page!'')])"
    using assms(1-4) i1 by (simp add: IReadBlock_def Let_def)
  have r2: "IReadBlock E ds (b\<lparr>deflate := False\<rparr>) xblk yblk buf
              = Returned (decode_stage E ds b xblk yblk buf ?data [])"
    using assms(1-4) i2 by (simp add: IReadBlock_def Let_def decode_stage_without_deflate)
  from r1 r2 show ?thesis by (simp add: decode_stage_log)
qed

section \<open>Properties of IWriteBlock: the byte order\<close>

text \<open>
  The band-separate branch swaps the caller's buffer in place and hands the swapped
  bytes to \<open>Compress\<close>.
\<close>

lemma write_separate_swabs_before_compress:
  assumes "needs_swab E (img b)"
    and "\<not> (byte_nodata ds b \<and> is_empty_buf buf (unat (pageSizeBytes (img b))) (nodata_char E ds b))"
    and "\<not> (\<not> byte_nodata ds b \<and> is_zero buf (unat (pageSizeBytes (img b))))"
    and "\<not> deflate b"
  shows "wr_buffer (write_separate E ds b pos buf)
           = buffer (swab_buff \<lparr>buffer = buf, size_b = pageSizeBytes (img b)\<rparr> (img b)) \<and>
         wr_call (write_separate E ds b pos buf)
           = Some (Some (store (pbuffer ds) 0
                     (take (unat (pbsize ds))
                        (Compress E
                           (load (buffer (swab_buff \<lparr>buffer = buf, size_b = pageSizeBytes (img b)\<rparr> (img b)))
                              0 (unat (pageSizeBytes (img b))))
                           (unat (pbsize ds))))),
                   pos,
                   of_nat (length (take (unat (pbsize ds))
                        (Compress E
                           (load (buffer (swab_buff \<lparr>buffer = buf, size_b = pageSizeBytes (img b)\<rparr> (img b)))
                              0 (unat (pageSizeBytes (img b))))
                           (unat (pbsize ds))))))"
proof -
  have sz: "size_b (swab_buff \<lparr>buffer = buf, size_b = pageSizeBytes (img b)\<rparr> (img b)) = pageSizeBytes (img b)"
    by (simp add: swab_buff_def Let_def)
  show ?thesis
    using assms by (auto simp add: write_separate_def Let_def return_WriteTile_def sz)
qed

text \<open>
  The interleaved branch never looks at the byte order: it has no call of \<open>swab_buff\<close>.
\<close>

lemma write_interleaved_ignores_byte_order:
  "write_interleaved E ds (b\<lparr>img := (img b)\<lparr>nbo := v\<rparr>\<rparr>) xblk yblk req pos buf
     = write_interleaved E ds b xblk yblk req pos buf"
proof -
  have s: "band_step E ds (b\<lparr>img := (img b)\<lparr>nbo := v\<rparr>\<rparr>) xblk yblk buf = band_step E ds b xblk yblk buf"
    by (intro ext)
      (simp add: band_step_def pabyThisImage_def byte_nodata_def nodata_char_def GetNoDataValue_def
         Let_def split: option.splits)
  have p: "write_page E d (b\<lparr>img := (img b)\<lparr>nbo := v\<rparr>\<rparr>) pos buf msgs tb
             = write_page E d b pos buf msgs tb" for d msgs tb
    by (simp add: write_page_def Let_def)
  show ?thesis
    by (simp add: write_interleaved_def band_loop_def s p Let_def split: option.splits)
qed

text \<open>
  Claim C7 does not hold of the interleaved branch.  Two interleaved bands of 16-bit
  pixels in a store whose byte order is not the network order: the page is stored
  unswapped, \<open>[1, 2, 5, 6, 3, 4, 7, 8]\<close>, and the caller's buffer is left as it was.  The
  same band in a band-separate store is swapped in place and stored as \<open>[2, 1, 4, 3]\<close>.
\<close>

theorem IWriteBlock_interleaved_not_swabbed:
  "needs_swab cached_env (img (swapped_band 2)) \<and>
   wr_err (IWriteBlock cached_env two_band_ds (swapped_band 2) 0 0 [1, 2, 3, 4]) = CE_None \<and>
   wr_buffer (IWriteBlock cached_env two_band_ds (swapped_band 2) 0 0 [1, 2, 3, 4]) = [1, 2, 3, 4] \<and>
   DataFP (wr_ds (IWriteBlock cached_env two_band_ds (swapped_band 2) 0 0 [1, 2, 3, 4]))
     = Some [1, 2, 5, 6, 3, 4, 7, 8] \<and>
   needs_swab cached_env (img (swapped_band 1)) \<and>
   wr_err (IWriteBlock cached_env int16_ds (swapped_band 1) 0 0 [1, 2, 3, 4]) = CE_None \<and>
   wr_buffer (IWriteBlock cached_env int16_ds (swapped_band 1) 0 0 [1, 2, 3, 4]) = [2, 1, 4, 3] \<and>
   DataFP (wr_ds (IWriteBlock cached_env int16_ds (swapped_band 1) 0 0 [1, 2, 3, 4])) = Some [2, 1, 4, 3]"
  by code_simp

text \<open>
  Reading the two tiles back: the interleaved band comes back swapped, the separate
  band as it was written.
\<close>

lemma interleaved_round_trip_swaps:
  "IReadBlock cached_env (wr_ds (IWriteBlock cached_env two_band_ds (swapped_band 2) 0 0 [1, 2, 3, 4]))
       (swapped_band 2) 0 0 [0, 0, 0, 0]
     = Returned \<lparr>rd_err = CE_None, rd_buffer = [2, 1, 4, 3],
                 rd_pbuffer = [2, 1, 6, 5, 4, 3, 8, 7, 0, 0, 0, 0, 0, 0, 0, 0],
                 rd_blocks = [(1, [6, 5, 8, 7])], rd_log = []\<rparr> \<and>
   IReadBlock cached_env (wr_ds (IWriteBlock cached_env int16_ds (swapped_band 1) 0 0 [1, 2, 3, 4]))
       (swapped_band 1) 0 0 [0, 0, 0, 0]
     = Returned \<lparr>rd_err = CE_None, rd_buffer = [1, 2, 3, 4], rd_pbuffer = [2, 1, 4, 3, 0, 0, 0, 0],
                 rd_blocks = [], rd_log = []\<rparr>"
  by code_simp

section \<open>Properties of IWriteBlock: the band loop of an interleaved page\<close>

text \<open>
  The emptiness bitmask has the bit of a band exactly when the band is resident and tests
  empty.  The mask is a 64-bit word: a band from number 64 on has no bit in it.
\<close>

lemma bit_bandbit: "bit (bandbit i) k \<longleftrightarrow> k = i \<and> i < 64"
  by (auto simp add: bandbit_def bit_push_bit_iff bit_1_iff bit_exp_iff)

lemma bandbit_beyond_mask: "64 \<le> i \<Longrightarrow> bandbit i = 0"
  by (rule bit_word_eqI) (simp add: bit_bandbit)

lemma band_step_failed:
  assumes "GDALGetDataTypeSize (eDataType b) div 8 \<in> {1, 2, 4, 8}"
  shows "as_failed (band_step E ds b xblk yblk buf st i) = as_failed st"
  using assms by (auto simp add: band_step_def Let_def split: option.splits)



lemma assemble_not_failed:
  assumes "GDALGetDataTypeSize (eDataType b) div 8 \<in> {1, 2, 4, 8}" "\<not> as_failed st"
  shows "\<not> as_failed (assemble (band_step E ds b xblk yblk buf) st bands)"
  using assms(2)
  by (induction bands arbitrary: st) (simp_all add: Let_def band_step_failed [OF assms(1)])




lemma length_cpy_stride_out [simp]: "length (cpy_stride_out w dst d src s count stride) = length dst"
  by (induction count arbitrary: dst d s) simp_all


























text \<open>
  Pixels of other widths are refused by the band loop.  Two interleaved bands of 16-byte
  complex pixels, the band being written not empty: the write fails, no index entry is
  written and no tile is stored.
\<close>

lemma IWriteBlock_wide_pixels_fail:
  "sz_c (pagesize (img cfloat64_band)) = 2 \<and> nBands cfloat64_ds = 2 \<and>
   \<not> band_tested_empty raw_env cfloat64_ds cfloat64_band 0 0 (1 # replicate 15 0) 0 \<and>
   wr_err (IWriteBlock raw_env cfloat64_ds cfloat64_band 0 0 (1 # replicate 15 0)) = CE_Failure \<and>
   wr_log (IWriteBlock raw_env cfloat64_ds cfloat64_band 0 0 (1 # replicate 15 0))
     = [(CE_Failure, ''MRF: Write datatype of %d bytes not implemented'')] \<and>
   wr_call (IWriteBlock raw_env cfloat64_ds cfloat64_band 0 0 (1 # replicate 15 0)) = None \<and>
   index_entries (wr_ds (IWriteBlock raw_env cfloat64_ds cfloat64_band 0 0 (1 # replicate 15 0))) 0 = None \<and>
   DataFP (wr_ds (IWriteBlock raw_env cfloat64_ds cfloat64_band 0 0 (1 # replicate 15 0))) = Some []"
  by code_simp

end
